theory Spec2Isabelle
  imports Main "HOL-Library.AList"
begin

section \<open>The event processor of \<^verbatim>\<open>models/index.ts\<close>, lines 395 to 980\<close>

text \<open>
  The file embeds the class \<^verbatim>\<open>EventProcessor\<close> and the helper functions that follow it.
  Conventions:
  \<^item> a private member \<^verbatim>\<open>_x\<close> of the class is written \<open>m_x\<close>, since an Isabelle name
    cannot start with an underscore;
  \<^item> the collaborators the class is constructed with or imports (checkpoint store, event hub
    client, pump manager, user handlers, load balancer, delay helper) are the fields of the
    record \<open>env\<close>; each is a function on the world that returns a value or a thrown error
    together with the world after the call;
  \<^item> an \<^verbatim>\<open>await\<close> is a call that returns: every awaited promise is taken to settle, with a
    value (\<open>Inr\<close>) or a rejection (\<open>Inl\<close>). While a call is pending other tasks run, so the
    world after a call may differ from the world before it in every component a collaborator
    can reach, the abort flags included;
  \<^item> the world carries a log of the collaborator calls made so far (\<open>trace\<close>), written by the
    model and never read by it.
\<close>

subsection \<open>Values and errors of the host language\<close>

datatype js_val =
    JUndefined
  | JNull
  | JBool bool
  | JNum int
  | JStr string
  | JObj "(string \<times> js_val) list"
  | JBuiltin string

type_synonym js_object = "(string \<times> js_val) list"

text \<open>An object is the list of its own properties; it is a plain object, so its prototype
  is \<^verbatim>\<open>Object.prototype\<close>. \<open>JBuiltin\<close> stands for a function or object the host provides,
  named by the expression that denotes it. The members every plain object inherits are
  those of \<^verbatim>\<open>Object.prototype\<close> in ECMAScript: eleven functions and the accessor
  \<^verbatim>\<open>__proto__\<close>, which yields the prototype itself. None of them is null or undefined.\<close>

definition objectPrototype :: js_object where
  "objectPrototype =
     [(''constructor'', JBuiltin ''Object''),
      (''__defineGetter__'', JBuiltin ''Object.prototype.__defineGetter__''),
      (''__defineSetter__'', JBuiltin ''Object.prototype.__defineSetter__''),
      (''hasOwnProperty'', JBuiltin ''Object.prototype.hasOwnProperty''),
      (''__lookupGetter__'', JBuiltin ''Object.prototype.__lookupGetter__''),
      (''__lookupSetter__'', JBuiltin ''Object.prototype.__lookupSetter__''),
      (''isPrototypeOf'', JBuiltin ''Object.prototype.isPrototypeOf''),
      (''propertyIsEnumerable'', JBuiltin ''Object.prototype.propertyIsEnumerable''),
      (''toString'', JBuiltin ''Object.prototype.toString''),
      (''valueOf'', JBuiltin ''Object.prototype.valueOf''),
      (''__proto__'', JBuiltin ''Object.prototype''),
      (''toLocaleString'', JBuiltin ''Object.prototype.toLocaleString'')]"

text \<open>Reading a property, \<^verbatim>\<open>obj[key]\<close> or \<^verbatim>\<open>obj.key\<close>: the own property when there is one,
  else the inherited member of that name, else \<^verbatim>\<open>undefined\<close>.\<close>

definition getProp :: "js_object \<Rightarrow> string \<Rightarrow> js_val" where
  "getProp obj key =
     (case map_of obj key of
        Some v \<Rightarrow> v
      | None \<Rightarrow> (case map_of objectPrototype key of Some inherited \<Rightarrow> inherited | None \<Rightarrow> JUndefined))"

text \<open>\<^verbatim>\<open>v == null\<close> (and the negation of \<^verbatim>\<open>v != undefined\<close>): true of null and undefined only.\<close>

definition isNullish :: "js_val \<Rightarrow> bool" where
  "isNullish v = (v = JUndefined \<or> v = JNull)"

record Error =
  name :: string
  message :: string

subsection \<open>Data model\<close>

record PartitionKey =
  fullyQualifiedNamespace :: string
  eventHubName :: string
  consumerGroup :: string
  partitionId :: string

record PartitionOwnership = PartitionKey +
  ownerId :: string
  lastModifiedTimeInMs :: "int option"
  etag :: "string option"

text \<open>Modelled from the spec: the interface \<^verbatim>\<open>Checkpoint\<close> of \<^verbatim>\<open>./partitionProcessor\<close>, a
  progress record with the composite key plus \<open>offset\<close> and \<open>sequenceNumber\<close>.\<close>

record Checkpoint = PartitionKey +
  offset :: js_val
  sequenceNumber :: js_val

text \<open>Modelled from the spec: the enumeration \<^verbatim>\<open>CloseReason\<close> of \<^verbatim>\<open>./models/public\<close>.\<close>

datatype CloseReason = Shutdown | OwnershipLost | PumpError

text \<open>The argument object of \<^verbatim>\<open>new PartitionProcessor(handlers, store, {...})\<close>, lines 685 to 691.\<close>

record PartitionProcessor = PartitionKey +
  eventProcessorId :: string

text \<open>The \<^verbatim>\<open>updateCheckpoint\<close> member of a context handed to a user handler: the empty
  asynchronous function \<^verbatim>\<open>async () => {}\<close> of line 844, or any other function.
  Modelled from the spec: the only other one it names is that of a partition processor,
  which forwards the checkpoint to the store (section 4.4); the class that builds it is in
  \<^verbatim>\<open>./partitionProcessor\<close>.\<close>

datatype UpdateCheckpoint = NoOperation | ForwardToStore

record PartitionContext = PartitionKey +
  updateCheckpoint :: UpdateCheckpoint

text \<open>A load balancer object: the default one built by the constructor with its inactivity
  limit, or one injected through the options (identified by a handle).\<close>

datatype PartitionLoadBalancer = FairPartitionLoadBalancer int | InjectedLoadBalancer nat

datatype ProcessingTarget = TargetPartition string | TargetBalancer PartitionLoadBalancer

text \<open>The promise returned by one of the two loop functions, with the arguments of the
  call: the fixed partition id or the balancer, and the reference of the abort controller
  whose signal the loop reads.\<close>

datatype LoopTask = SinglePartitionLoop string nat | LoadBalancingLoop PartitionLoadBalancer nat

record EventHubClient =
  client_fullyQualifiedNamespace :: string
  client_eventHubName :: string

record FullEventProcessorOptions =
  opt_ownerId :: "string option"
  opt_inactiveTimeLimitInMs :: "int option"
  opt_processingTarget :: "ProcessingTarget option"
  opt_loopIntervalInMs :: "int option"
  opt_startPosition :: "js_object option"

record EventProcessor =
  m_consumerGroup :: string
  m_eventHubClient :: EventHubClient
  m_processorOptions :: FullEventProcessorOptions
  m_id :: string
  m_isRunning :: bool
  m_loopTask :: "LoopTask option"
  m_abortController :: "nat option"
  m_processingTarget :: ProcessingTarget
  m_loopIntervalInMs :: int
  m_inactiveTimeLimitInMs :: int

subsection \<open>The world: abort controllers, the call log, the collaborators' state\<close>

datatype call =
    ListOwnership string string string
  | ClaimOwnership "PartitionOwnership list"
  | ListCheckpoints string string string
  | GetPartitionIds nat
  | LoadBalance PartitionLoadBalancer string "(string \<times> PartitionOwnership) list" "string list"
  | IsReceivingFromPartition string
  | CreatePump js_val PartitionProcessor
  | RemoveAllPumps CloseReason
  | ProcessError Error PartitionContext
  | DelayWithoutThrow int nat
  | AwaitLoopTask LoopTask
  | LoopStarted LoopTask
  | StoreUpdateCheckpoint Checkpoint

record 'x world =
  controllers :: "bool list"
  trace :: "call list"
  ext :: 'x

type_synonym ('x, 'a) action = "'x world \<Rightarrow> (Error + 'a) \<times> 'x world"

record 'x env =
  listOwnership :: "string \<Rightarrow> string \<Rightarrow> string \<Rightarrow> ('x, PartitionOwnership list) action"
  claimOwnership :: "PartitionOwnership list \<Rightarrow> ('x, PartitionOwnership list) action"
  listCheckpoints :: "string \<Rightarrow> string \<Rightarrow> string \<Rightarrow> ('x, Checkpoint list) action"
  storeUpdateCheckpoint :: "Checkpoint \<Rightarrow> ('x, unit) action"
  getPartitionIds :: "nat \<Rightarrow> ('x, string list) action"
  loadBalance :: "PartitionLoadBalancer \<Rightarrow> string \<Rightarrow> (string \<times> PartitionOwnership) list
                    \<Rightarrow> string list \<Rightarrow> ('x, string list option) action"
  isReceivingFromPartition :: "string \<Rightarrow> 'x world \<Rightarrow> bool"
  createPump :: "js_val \<Rightarrow> PartitionProcessor \<Rightarrow> ('x, unit) action"
  removeAllPumps :: "CloseReason \<Rightarrow> ('x, unit) action"
  processError :: "(Error \<Rightarrow> PartitionContext \<Rightarrow> ('x, unit) action) option"
  delayWithoutThrow :: "int \<Rightarrow> nat \<Rightarrow> 'x world \<Rightarrow> 'x world"
  awaitLoopTask :: "LoopTask \<Rightarrow> ('x, unit) action"
  latestEventPosition :: js_val

text \<open>
  The members of \<open>env\<close>, by the object they belong to in the source:
  \<^item> \<^verbatim>\<open>_checkpointStore\<close>: \<open>listOwnership\<close>, \<open>claimOwnership\<close>, \<open>listCheckpoints\<close>,
    \<open>storeUpdateCheckpoint\<close>;
  \<^item> \<^verbatim>\<open>_eventHubClient\<close>: \<open>getPartitionIds\<close>, whose argument is the abort signal it is given;
  \<^item> the load balancer of \<^verbatim>\<open>_processingTarget\<close>: \<open>loadBalance\<close>, a synchronous call that
    returns the list of partitions to claim, or nothing (a falsy value), or throws;
  \<^item> \<^verbatim>\<open>_pumpManager\<close>: \<open>isReceivingFromPartition\<close>, \<open>createPump\<close>, \<open>removeAllPumps\<close>;
  \<^item> \<^verbatim>\<open>_subscriptionEventHandlers\<close>: \<open>processError\<close>, which may be absent;
  \<^item> the imports \<^verbatim>\<open>delayWithoutThrow\<close>, which never throws, and \<^verbatim>\<open>latestEventPosition\<close>, a
    constant of \<^verbatim>\<open>./eventPosition\<close> whose value is a parameter here;
  \<^item> \<open>awaitLoopTask\<close>: what awaiting the promise of the background loop yields.
\<close>

text \<open>A collaborator call, logged: the event is appended to the log as it stood before the
  call, so a collaborator cannot alter the log.\<close>

definition logged :: "call \<Rightarrow> ('x world \<Rightarrow> 'a \<times> 'x world) \<Rightarrow> 'x world \<Rightarrow> 'a \<times> 'x world" where
  "logged ev f w = (case f w of (r, w') \<Rightarrow> (r, w'\<lparr>trace := trace w @ [ev]\<rparr>))"

text \<open>\<^verbatim>\<open>new AbortController()\<close>, \<^verbatim>\<open>controller.abort()\<close> and \<^verbatim>\<open>signal.aborted\<close>: a controller is
  its index in \<open>controllers\<close>, the entry is the flag of its signal.\<close>

definition newAbortController :: "'x world \<Rightarrow> nat \<times> 'x world" where
  "newAbortController w = (length (controllers w), w\<lparr>controllers := controllers w @ [False]\<rparr>)"

definition abort_controller :: "nat \<Rightarrow> 'x world \<Rightarrow> 'x world" where
  "abort_controller c w = w\<lparr>controllers := (controllers w)[c := True]\<rparr>"

definition aborted :: "nat \<Rightarrow> 'x world \<Rightarrow> bool" where
  "aborted c w = (c < length (controllers w) \<and> controllers w ! c)"


subsection \<open>Reporting an error that belongs to no partition (lines 831 to 852)\<close>

definition subscriptionErrorContext :: "EventProcessor \<Rightarrow> PartitionContext" where
  "subscriptionErrorContext p =
     \<lparr>fullyQualifiedNamespace = client_fullyQualifiedNamespace (m_eventHubClient p),
      eventHubName = client_eventHubName (m_eventHubClient p),
      consumerGroup = m_consumerGroup p,
      partitionId = '''',
      updateCheckpoint = NoOperation\<rparr>"

definition m_handleSubscriptionError :: "'x env \<Rightarrow> EventProcessor \<Rightarrow> Error \<Rightarrow> ('x, unit) action" where
  "m_handleSubscriptionError e p err w =
     (if name err = ''AbortError'' then (Inr (), w)
      else case processError e of
        None \<Rightarrow> (Inr (), w)
      | Some handler \<Rightarrow>
          (case logged (ProcessError err (subscriptionErrorContext p))
                  (handler err (subscriptionErrorContext p)) w of
             (Inl thrown, w') \<Rightarrow> (Inr (), w')
           | (Inr u, w') \<Rightarrow> (Inr (), w')))"

subsection \<open>Construction (lines 587 to 612)\<close>

text \<open>\<^verbatim>\<open>a || b\<close> and \<^verbatim>\<open>if (a)\<close> test truthiness: an absent option, the number 0 and the empty
  string are falsy, an object is truthy. Numbers are integers here, so the falsy \<^verbatim>\<open>NaN\<close> has
  no counterpart. \<open>fresh\<close> is the value \<^verbatim>\<open>uuid()\<close> returns, used only when no owner id is
  given. The pump manager is a collaborator and lives in \<open>env\<close>.\<close>

definition truthyNumber :: "int option \<Rightarrow> int option" where
  "truthyNumber n = (case n of None \<Rightarrow> None | Some v \<Rightarrow> if v = 0 then None else Some v)"

definition truthyString :: "string option \<Rightarrow> string option" where
  "truthyString s = (case s of None \<Rightarrow> None | Some v \<Rightarrow> if v = [] then None else Some v)"

definition truthyTarget :: "ProcessingTarget option \<Rightarrow> ProcessingTarget option" where
  "truthyTarget t =
     (case t of
        None \<Rightarrow> None
      | Some (TargetPartition pid) \<Rightarrow> if pid = [] then None else Some (TargetPartition pid)
      | Some (TargetBalancer b) \<Rightarrow> Some (TargetBalancer b))"

definition new_EventProcessor ::
  "string \<Rightarrow> EventHubClient \<Rightarrow> FullEventProcessorOptions \<Rightarrow> string \<Rightarrow> EventProcessor" where
  "new_EventProcessor grp client options fresh =
     (let inactiveTimeLimitInMS =
            (case truthyNumber (opt_inactiveTimeLimitInMs options) of
               Some v \<Rightarrow> v | None \<Rightarrow> 60000)
      in \<lparr>m_consumerGroup = grp,
          m_eventHubClient = client,
          m_processorOptions = options,
          m_id = (case truthyString (opt_ownerId options) of Some v \<Rightarrow> v | None \<Rightarrow> fresh),
          m_isRunning = False,
          m_loopTask = None,
          m_abortController = None,
          m_processingTarget =
            (case truthyTarget (opt_processingTarget options) of
               Some t \<Rightarrow> t
             | None \<Rightarrow> TargetBalancer (FairPartitionLoadBalancer inactiveTimeLimitInMS)),
          m_loopIntervalInMs =
            (case truthyNumber (opt_loopIntervalInMs options) of Some v \<Rightarrow> v | None \<Rightarrow> 10000),
          m_inactiveTimeLimitInMs = 60000\<rparr>)"

subsection \<open>Helper functions (lines 947 to 980)\<close>

definition isAbandoned :: "PartitionOwnership \<Rightarrow> bool" where
  "isAbandoned ownership = (ownerId ownership = [])"

definition getStartPosition :: "js_val \<Rightarrow> string \<Rightarrow> js_object option \<Rightarrow> js_val" where
  "getStartPosition latest partitionIdToClaim startPositions =
     (case startPositions of
        None \<Rightarrow> latest
      | Some sp \<Rightarrow>
          if \<not> isNullish (getProp sp ''offset'') \<or>
             \<not> isNullish (getProp sp ''sequenceNumber'') \<or>
             \<not> isNullish (getProp sp ''enqueuedOn'')
          then JObj sp
          else (let startPosition = getProp sp partitionIdToClaim
                in if isNullish startPosition then latest else startPosition))"

definition targetWithoutOwnership :: "ProcessingTarget \<Rightarrow> bool" where
  "targetWithoutOwnership target =
     (case target of TargetPartition pid \<Rightarrow> True | TargetBalancer b \<Rightarrow> False)"

subsection \<open>Starting a pump (lines 670 to 719)\<close>

definition m_getStartingPosition :: "'x env \<Rightarrow> EventProcessor \<Rightarrow> string \<Rightarrow> ('x, js_val) action" where
  "m_getStartingPosition e p partitionIdToClaim w =
     (case logged (ListCheckpoints (client_fullyQualifiedNamespace (m_eventHubClient p))
                     (client_eventHubName (m_eventHubClient p)) (m_consumerGroup p))
                  (listCheckpoints e (client_fullyQualifiedNamespace (m_eventHubClient p))
                     (client_eventHubName (m_eventHubClient p)) (m_consumerGroup p)) w of
        (Inl err, w1) \<Rightarrow> (Inl err, w1)
      | (Inr availableCheckpoints, w1) \<Rightarrow>
          (case filter (\<lambda>chk. partitionId chk = partitionIdToClaim) availableCheckpoints of
             chk # rest \<Rightarrow> (Inr (JObj [(''offset'', offset chk)]), w1)
           | [] \<Rightarrow> (Inr (getStartPosition (latestEventPosition e) partitionIdToClaim
                            (opt_startPosition (m_processorOptions p))), w1)))"

text \<open>\<^verbatim>\<open>isReceivingFromPartition\<close> is a synchronous query of the pump manager: it reads the
  world and leaves it as it is.\<close>

definition m_startPump :: "'x env \<Rightarrow> EventProcessor \<Rightarrow> string \<Rightarrow> ('x, unit) action" where
  "m_startPump e p pid w =
     (let w0 = w\<lparr>trace := trace w @ [IsReceivingFromPartition pid]\<rparr>
      in if isReceivingFromPartition e pid w then (Inr (), w0)
         else (case m_getStartingPosition e p pid w0 of
                 (Inl err, w1) \<Rightarrow> (Inl err, w1)
               | (Inr eventPosition, w1) \<Rightarrow>
                   (let partitionProcessor =
                          \<lparr>fullyQualifiedNamespace = client_fullyQualifiedNamespace (m_eventHubClient p),
                           eventHubName = client_eventHubName (m_eventHubClient p),
                           consumerGroup = m_consumerGroup p,
                           partitionId = pid,
                           eventProcessorId = m_id p\<rparr>
                    in logged (CreatePump eventPosition partitionProcessor)
                         (createPump e eventPosition partitionProcessor) w1)))"

subsection \<open>Claiming a partition (lines 623 to 668)\<close>

definition m_createPartitionOwnershipRequest ::
  "EventProcessor \<Rightarrow> (string \<times> PartitionOwnership) list \<Rightarrow> string \<Rightarrow> PartitionOwnership" where
  "m_createPartitionOwnershipRequest p partitionOwnershipMap partitionIdToClaim =
     (let previousPartitionOwnership = map_of partitionOwnershipMap partitionIdToClaim
      in \<lparr>fullyQualifiedNamespace = client_fullyQualifiedNamespace (m_eventHubClient p),
          eventHubName = client_eventHubName (m_eventHubClient p),
          consumerGroup = m_consumerGroup p,
          partitionId = partitionIdToClaim,
          ownerId = m_id p,
          lastModifiedTimeInMs = None,
          etag = (case previousPartitionOwnership of None \<Rightarrow> None | Some prev \<Rightarrow> etag prev)\<rparr>)"

definition m_claimOwnership :: "'x env \<Rightarrow> EventProcessor \<Rightarrow> PartitionOwnership \<Rightarrow> ('x, unit) action" where
  "m_claimOwnership e p ownershipRequest w =
     (case logged (ClaimOwnership [ownershipRequest]) (claimOwnership e [ownershipRequest]) w of
        (Inl err, w1) \<Rightarrow> m_handleSubscriptionError e p err w1
      | (Inr claimedOwnerships, w1) \<Rightarrow>
          if claimedOwnerships = [] then (Inr (), w1)
          else (case m_startPump e p (partitionId ownershipRequest) w1 of
                  (Inl err, w2) \<Rightarrow> m_handleSubscriptionError e p err w2
                | (Inr u, w2) \<Rightarrow> (Inr (), w2)))"

subsection \<open>The loop for a single partition (lines 721 to 741)\<close>

text \<open>What a \<^verbatim>\<open>try\<close> block hands to its \<^verbatim>\<open>finally\<close>: it ran to its end, or it executed
  \<^verbatim>\<open>return\<close>. A thrown error is the \<open>Inl\<close> of the result.\<close>

datatype completion = Normal | Return

text \<open>One pass through the body of the \<^verbatim>\<open>while\<close>: the \<^verbatim>\<open>try\<close>, the \<^verbatim>\<open>catch\<close> and the
  \<^verbatim>\<open>finally\<close>, whose delay runs on every path and never throws.\<close>

definition singlePartitionIteration ::
  "'x env \<Rightarrow> EventProcessor \<Rightarrow> string \<Rightarrow> nat \<Rightarrow> ('x, completion) action" where
  "singlePartitionIteration e p pid abortSignal w =
     (case (case m_startPump e p pid w of
              (Inl err, w1) \<Rightarrow>
                (case m_handleSubscriptionError e p err w1 of
                   (Inl err', w2) \<Rightarrow> (Inl err', w2)
                 | (Inr u, w2) \<Rightarrow> (Inr Normal, w2))
            | (Inr u, w1) \<Rightarrow> (Inr Normal, w1)) of
        (r, w3) \<Rightarrow>
          (r, snd (logged (DelayWithoutThrow (m_loopIntervalInMs p) abortSignal)
                     (\<lambda>v. ((), delayWithoutThrow e (m_loopIntervalInMs p) abortSignal v)) w3)))"

text \<open>The \<^verbatim>\<open>while\<close> loop may run for ever; the first argument bounds the number of passes,
  and \<open>None\<close> says that the bound was reached before the loop returned.\<close>

fun m_runLoopForSinglePartition ::
  "nat \<Rightarrow> 'x env \<Rightarrow> EventProcessor \<Rightarrow> string \<Rightarrow> nat \<Rightarrow> 'x world \<Rightarrow> ((Error + unit) \<times> 'x world) option" where
  "m_runLoopForSinglePartition 0 e p pid abortSignal w = None"
| "m_runLoopForSinglePartition (Suc n) e p pid abortSignal w =
     (if aborted abortSignal w then Some (Inr (), w)
      else (case singlePartitionIteration e p pid abortSignal w of
              (Inl err, w1) \<Rightarrow> Some (Inl err, w1)
            | (Inr Return, w1) \<Rightarrow> Some (Inr (), w1)
            | (Inr Normal, w1) \<Rightarrow> m_runLoopForSinglePartition n e p pid abortSignal w1))"

subsection \<open>The loop with load balancing (lines 754 to 826)\<close>

text \<open>Lines 769 to 778: the rows are split by \<^verbatim>\<open>isAbandoned\<close> into two maps keyed by partition
  id. A JavaScript \<^verbatim>\<open>Map\<close> keeps insertion order and \<^verbatim>\<open>set\<close> overwrites in place, which is
  \<open>AList.update\<close> on an association list.\<close>

fun splitOwnerships ::
  "PartitionOwnership list \<Rightarrow> (string \<times> PartitionOwnership) list \<Rightarrow> (string \<times> PartitionOwnership) list
     \<Rightarrow> (string \<times> PartitionOwnership) list \<times> (string \<times> PartitionOwnership) list" where
  "splitOwnerships [] abandonedMap partitionOwnershipMap = (abandonedMap, partitionOwnershipMap)"
| "splitOwnerships (ownership # rest) abandonedMap partitionOwnershipMap =
     (if isAbandoned ownership
      then splitOwnerships rest (AList.update (partitionId ownership) ownership abandonedMap)
             partitionOwnershipMap
      else splitOwnerships rest abandonedMap
             (AList.update (partitionId ownership) ownership partitionOwnershipMap))"

text \<open>Lines 795 to 807: the request for one partition the balancer returned.\<close>

definition ownershipRequestFor ::
  "EventProcessor \<Rightarrow> (string \<times> PartitionOwnership) list \<Rightarrow> (string \<times> PartitionOwnership) list
     \<Rightarrow> string \<Rightarrow> PartitionOwnership" where
  "ownershipRequestFor p abandonedMap partitionOwnershipMap partitionToClaim =
     (if map_of abandonedMap partitionToClaim \<noteq> None
      then m_createPartitionOwnershipRequest p abandonedMap partitionToClaim
      else m_createPartitionOwnershipRequest p partitionOwnershipMap partitionToClaim)"

text \<open>Lines 794 to 810: the \<^verbatim>\<open>for\<close> loop over the partitions to claim.\<close>

fun claimPartitions ::
  "'x env \<Rightarrow> EventProcessor \<Rightarrow> (string \<times> PartitionOwnership) list \<Rightarrow> (string \<times> PartitionOwnership) list
     \<Rightarrow> string list \<Rightarrow> ('x, unit) action" where
  "claimPartitions e p abandonedMap partitionOwnershipMap [] w = (Inr (), w)"
| "claimPartitions e p abandonedMap partitionOwnershipMap (partitionToClaim # rest) w =
     (case m_claimOwnership e p
             (ownershipRequestFor p abandonedMap partitionOwnershipMap partitionToClaim) w of
        (Inl err, w1) \<Rightarrow> (Inl err, w1)
      | (Inr u, w1) \<Rightarrow> claimPartitions e p abandonedMap partitionOwnershipMap rest w1)"

text \<open>Lines 761 to 812: the \<^verbatim>\<open>try\<close> block.\<close>

definition loadBalancingTry ::
  "'x env \<Rightarrow> EventProcessor \<Rightarrow> PartitionLoadBalancer \<Rightarrow> nat \<Rightarrow> ('x, completion) action" where
  "loadBalancingTry e p loadBalancer abortSignal w =
     (case logged (ListOwnership (client_fullyQualifiedNamespace (m_eventHubClient p))
                     (client_eventHubName (m_eventHubClient p)) (m_consumerGroup p))
                  (listOwnership e (client_fullyQualifiedNamespace (m_eventHubClient p))
                     (client_eventHubName (m_eventHubClient p)) (m_consumerGroup p)) w of
        (Inl err, w1) \<Rightarrow> (Inl err, w1)
      | (Inr partitionOwnership, w1) \<Rightarrow>
          (case splitOwnerships partitionOwnership [] [] of
             (abandonedMap, partitionOwnershipMap) \<Rightarrow>
               (case logged (GetPartitionIds abortSignal) (getPartitionIds e abortSignal) w1 of
                  (Inl err, w2) \<Rightarrow> (Inl err, w2)
                | (Inr partitionIds, w2) \<Rightarrow>
                    if aborted abortSignal w2 then (Inr Return, w2)
                    else if partitionIds \<noteq> [] then
                      (case logged (LoadBalance loadBalancer (m_id p) partitionOwnershipMap partitionIds)
                              (loadBalance e loadBalancer (m_id p) partitionOwnershipMap partitionIds) w2 of
                         (Inl err, w3) \<Rightarrow> (Inl err, w3)
                       | (Inr None, w3) \<Rightarrow> (Inr Normal, w3)
                       | (Inr (Some partitionsToClaim), w3) \<Rightarrow>
                           (case claimPartitions e p abandonedMap partitionOwnershipMap
                                   partitionsToClaim w3 of
                              (Inl err, w4) \<Rightarrow> (Inl err, w4)
                            | (Inr u, w4) \<Rightarrow> (Inr Normal, w4)))
                    else (Inr Normal, w2))))"

definition loadBalancingIteration ::
  "'x env \<Rightarrow> EventProcessor \<Rightarrow> PartitionLoadBalancer \<Rightarrow> nat \<Rightarrow> ('x, completion) action" where
  "loadBalancingIteration e p loadBalancer abortSignal w =
     (case (case loadBalancingTry e p loadBalancer abortSignal w of
              (Inl err, w1) \<Rightarrow>
                (case m_handleSubscriptionError e p err w1 of
                   (Inl err', w2) \<Rightarrow> (Inl err', w2)
                 | (Inr u, w2) \<Rightarrow> (Inr Normal, w2))
            | (Inr c, w1) \<Rightarrow> (Inr c, w1)) of
        (r, w3) \<Rightarrow>
          (r, snd (logged (DelayWithoutThrow (m_loopIntervalInMs p) abortSignal)
                     (\<lambda>v. ((), delayWithoutThrow e (m_loopIntervalInMs p) abortSignal v)) w3)))"

fun m_runLoopWithLoadBalancing ::
  "nat \<Rightarrow> 'x env \<Rightarrow> EventProcessor \<Rightarrow> PartitionLoadBalancer \<Rightarrow> nat \<Rightarrow> 'x world
     \<Rightarrow> ((Error + unit) \<times> 'x world) option" where
  "m_runLoopWithLoadBalancing 0 e p loadBalancer abortSignal w = None"
| "m_runLoopWithLoadBalancing (Suc n) e p loadBalancer abortSignal w =
     (if aborted abortSignal w then Some (Inr (), w)
      else (case loadBalancingIteration e p loadBalancer abortSignal w of
              (Inl err, w1) \<Rightarrow> Some (Inl err, w1)
            | (Inr Return, w1) \<Rightarrow> Some (Inr (), w1)
            | (Inr Normal, w1) \<Rightarrow> m_runLoopWithLoadBalancing n e p loadBalancer abortSignal w1))"

subsection \<open>Starting and stopping (lines 865 to 944)\<close>

text \<open>\<open>start\<close> is synchronous. Calling a loop function creates its task, which then runs
  interleaved with everything else; the model records the creation in the log and keeps the
  task's description in \<open>m_loopTask\<close>.\<close>

definition start :: "EventProcessor \<Rightarrow> 'x world \<Rightarrow> EventProcessor \<times> 'x world" where
  "start p w =
     (if m_isRunning p then (p, w)
      else (case newAbortController w of
              (c, w1) \<Rightarrow>
                (let task = (case m_processingTarget p of
                               TargetPartition pid \<Rightarrow> SinglePartitionLoop pid c
                             | TargetBalancer loadBalancer \<Rightarrow> LoadBalancingLoop loadBalancer c)
                 in (p\<lparr>m_isRunning := True, m_abortController := Some c, m_loopTask := Some task\<rparr>,
                     w1\<lparr>trace := trace w1 @ [LoopStarted task]\<rparr>))))"

definition isRunning :: "EventProcessor \<Rightarrow> bool" where
  "isRunning p = m_isRunning p"

definition abandonPartitionOwnerships ::
  "'x env \<Rightarrow> EventProcessor \<Rightarrow> ('x, PartitionOwnership list) action" where
  "abandonPartitionOwnerships e p w =
     (case logged (ListOwnership (client_fullyQualifiedNamespace (m_eventHubClient p))
                     (client_eventHubName (m_eventHubClient p)) (m_consumerGroup p))
                  (listOwnership e (client_fullyQualifiedNamespace (m_eventHubClient p))
                     (client_eventHubName (m_eventHubClient p)) (m_consumerGroup p)) w of
        (Inl err, w1) \<Rightarrow> (Inl err, w1)
      | (Inr allOwnerships, w1) \<Rightarrow>
          (let ourOwnerships = map (\<lambda>ownership. ownership\<lparr>ownerId := []\<rparr>)
                                 (filter (\<lambda>ownership. ownerId ownership = m_id p) allOwnerships)
           in logged (ClaimOwnership ourOwnerships) (claimOwnership e ourOwnerships) w1))"

text \<open>Lines 903 to 922 of \<open>stop\<close>: the abort, the flag, and the \<^verbatim>\<open>try\<close> whose \<^verbatim>\<open>catch\<close> only
  logs. Awaiting the loop's promise is a collaborator call: what the loop does until it
  returns is part of what the world does meanwhile.\<close>

definition stopShutdown :: "'x env \<Rightarrow> EventProcessor \<Rightarrow> 'x world \<Rightarrow> EventProcessor \<times> 'x world" where
  "stopShutdown e p w =
     (let w1 = (case m_abortController p of None \<Rightarrow> w | Some c \<Rightarrow> abort_controller c w);
          p1 = p\<lparr>m_isRunning := False\<rparr>
      in (case logged (RemoveAllPumps Shutdown) (removeAllPumps e Shutdown) w1 of
            (Inl err, w2) \<Rightarrow> (p1, w2)
          | (Inr u, w2) \<Rightarrow>
              (case m_loopTask p1 of
                 None \<Rightarrow> (p1, w2)
               | Some task \<Rightarrow>
                   (case logged (AwaitLoopTask task) (awaitLoopTask e task) w2 of
                      (Inl err, w3) \<Rightarrow> (p1, w3)
                    | (Inr u', w3) \<Rightarrow> (p1, w3)))))"

definition stop :: "'x env \<Rightarrow> EventProcessor \<Rightarrow> 'x world \<Rightarrow> (Error + unit) \<times> EventProcessor \<times> 'x world" where
  "stop e p w =
     (case stopShutdown e p w of
        (p1, w3) \<Rightarrow>
          if targetWithoutOwnership (m_processingTarget p1) then (Inr (), p1, w3)
          else (case abandonPartitionOwnerships e p1 w3 of
                  (Inl err, w4) \<Rightarrow> (Inl err, p1, w4)
                | (Inr claimed, w4) \<Rightarrow> (Inr (), p1, w4)))"

subsection \<open>Reading the call log\<close>

fun isClaimOwnership :: "call \<Rightarrow> bool" where
  "isClaimOwnership (ClaimOwnership rows) = True"
| "isClaimOwnership other = False"




subsection \<open>A concrete processor and concrete collaborators\<close>

text \<open>The collaborators below answer every call at once and never fail; the examples that
  follow replace single members.\<close>

definition demoClient :: EventHubClient where
  "demoClient = \<lparr>client_fullyQualifiedNamespace = ''ns.example.net'', client_eventHubName = ''hub''\<rparr>"

definition demoOptions :: FullEventProcessorOptions where
  "demoOptions = \<lparr>opt_ownerId = Some ''A'', opt_inactiveTimeLimitInMs = None,
                  opt_processingTarget = None, opt_loopIntervalInMs = None,
                  opt_startPosition = None\<rparr>"

definition demoProcessor :: EventProcessor where
  "demoProcessor = new_EventProcessor ''$Default'' demoClient demoOptions ''generated''"

definition demoWorld :: "unit world" where
  "demoWorld = \<lparr>controllers = [], trace = [], ext = ()\<rparr>"

definition demoRow :: "string \<Rightarrow> string \<Rightarrow> string option \<Rightarrow> PartitionOwnership" where
  "demoRow pid owner tag =
     \<lparr>fullyQualifiedNamespace = ''ns.example.net'', eventHubName = ''hub'',
      consumerGroup = ''$Default'', partitionId = pid, ownerId = owner,
      lastModifiedTimeInMs = Some 1000, etag = tag\<rparr>"

definition demoCheckpoint :: "string \<Rightarrow> js_val \<Rightarrow> Checkpoint" where
  "demoCheckpoint pid off =
     \<lparr>fullyQualifiedNamespace = ''ns.example.net'', eventHubName = ''hub'',
      consumerGroup = ''$Default'', partitionId = pid, offset = off, sequenceNumber = JNum 7\<rparr>"

definition demoError :: Error where
  "demoError = \<lparr>name = ''StoreError'', message = ''unavailable''\<rparr>"

definition demoAbortError :: Error where
  "demoAbortError = \<lparr>name = ''AbortError'', message = ''aborted''\<rparr>"

definition demoEnv ::
  "PartitionOwnership list \<Rightarrow> Checkpoint list \<Rightarrow> string list \<Rightarrow> string list \<Rightarrow> unit env" where
  "demoEnv rows checkpoints ids plan =
     \<lparr>listOwnership = (\<lambda>ns hub grp w. (Inr rows, w)),
      claimOwnership = (\<lambda>requests w. (Inr requests, w)),
      listCheckpoints = (\<lambda>ns hub grp w. (Inr checkpoints, w)),
      storeUpdateCheckpoint = (\<lambda>chk w. (Inr (), w)),
      getPartitionIds = (\<lambda>c w. (Inr ids, w)),
      loadBalance = (\<lambda>b owner m ps w. (Inr (Some plan), w)),
      isReceivingFromPartition = (\<lambda>pid w. False),
      createPump = (\<lambda>pos pp w. (Inr (), w)),
      removeAllPumps = (\<lambda>reason w. (Inr (), w)),
      processError = Some (\<lambda>err ctx w. (Inr (), w)),
      delayWithoutThrow = (\<lambda>ms c w. w),
      awaitLoopTask = (\<lambda>task w. (Inr (), w)),
      latestEventPosition = JObj [(''offset'', JStr ''@latest'')]\<rparr>"


definition demoPositions :: js_object where
  "demoPositions = [(''0'', JObj [(''sequenceNumber'', JNum 5)]), (''1'', JObj [(''offset'', JNum 9)])]"

definition demoMapProcessor :: EventProcessor where
  "demoMapProcessor = new_EventProcessor ''$Default'' demoClient
      (demoOptions\<lparr>opt_startPosition := Some demoPositions\<rparr>) ''generated''"

definition demoSingleProcessor :: EventProcessor where
  "demoSingleProcessor = new_EventProcessor ''$Default'' demoClient
      (demoOptions\<lparr>opt_startPosition := Some [(''enqueuedOn'', JNum 1700000000000)]\<rparr>) ''generated''"

definition demoRows :: "PartitionOwnership list" where
  "demoRows = [demoRow ''0'' ''B'' (Some ''e0''), demoRow ''1'' ''B'' (Some ''old''),
               demoRow ''1'' [] (Some ''e1'')]"



definition ownedRows :: "PartitionOwnership list" where
  "ownedRows = [demoRow ''0'' ''B'' (Some ''e0''), demoRow ''3'' ''A'' (Some ''e3'')]"

definition writeFailingEnv :: "unit env" where
  "writeFailingEnv = (demoEnv ownedRows [] [] [])
      \<lparr>claimOwnership := (\<lambda>requests w. (Inl demoError, w))\<rparr>"

definition closeFailingEnv :: "unit env" where
  "closeFailingEnv = (demoEnv ownedRows [] [] [])
      \<lparr>removeAllPumps := (\<lambda>reason w. (Inl demoError, w)),
       claimOwnership := (\<lambda>requests w. (Inr [], w))\<rparr>"

definition startedProcessor :: EventProcessor where
  "startedProcessor = fst (start demoProcessor demoWorld)"

definition startedWorld :: "unit world" where
  "startedWorld = snd (start demoProcessor demoWorld)"

text \<open>Collaborators with a pump manager that keeps the ids of the partitions it receives
  from, and a store that lists one checkpoint, for partition 0.\<close>

definition pumpManagerEnv :: "string list env" where
  "pumpManagerEnv =
     \<lparr>listOwnership = (\<lambda>ns hub grp w. (Inr [], w)),
      claimOwnership = (\<lambda>requests w. (Inr requests, w)),
      listCheckpoints = (\<lambda>ns hub grp w. (Inr [demoCheckpoint ''0'' (JStr ''42'')], w)),
      storeUpdateCheckpoint = (\<lambda>chk w. (Inr (), w)),
      getPartitionIds = (\<lambda>c w. (Inr [''0''], w)),
      loadBalance = (\<lambda>b owner m ps w. (Inr (Some [''0'']), w)),
      isReceivingFromPartition = (\<lambda>pid w. pid \<in> set (ext w)),
      createPump = (\<lambda>pos pp w. (Inr (), w\<lparr>ext := partitionId pp # ext w\<rparr>)),
      removeAllPumps = (\<lambda>reason w. (Inr (), w\<lparr>ext := []\<rparr>)),
      processError = None,
      delayWithoutThrow = (\<lambda>ms c w. w),
      awaitLoopTask = (\<lambda>task w. (Inr (), w)),
      latestEventPosition = JObj [(''offset'', JStr ''@latest'')]\<rparr>"

definition pumpWorld :: "string list world" where
  "pumpWorld = \<lparr>controllers = [], trace = [], ext = []\<rparr>"

section \<open>Properties\<close>

subsection \<open>Auxiliary facts\<close>

lemma handleSubscriptionError_returns:
  "fst (m_handleSubscriptionError e p err w) = Inr ()"
  by (simp add: m_handleSubscriptionError_def split: option.split prod.split sum.split)

text \<open>Neither loop function rejects: every error of a pass is caught and handed to
  \<open>m_handleSubscriptionError\<close>, which returns. A loop whose signal is aborted when the
  condition of the \<^verbatim>\<open>while\<close> is tested returns at once.\<close>

lemma loadBalancingIteration_no_throw:
  "\<exists>c. fst (loadBalancingIteration e p b sig w) = Inr c"
proof (cases "loadBalancingTry e p b sig w")
  case (Pair r w1)
  show ?thesis
  proof (cases r)
    case (Inl err)
    then show ?thesis
      using Pair handleSubscriptionError_returns [of e p err w1]
      by (cases "m_handleSubscriptionError e p err w1") (simp add: loadBalancingIteration_def)
  next
    case (Inr c)
    then show ?thesis
      using Pair by (simp add: loadBalancingIteration_def)
  qed
qed

lemma singlePartitionIteration_no_throw:
  "\<exists>c. fst (singlePartitionIteration e p pid sig w) = Inr c"
proof (cases "m_startPump e p pid w")
  case (Pair r w1)
  show ?thesis
  proof (cases r)
    case (Inl err)
    then show ?thesis
      using Pair handleSubscriptionError_returns [of e p err w1]
      by (cases "m_handleSubscriptionError e p err w1") (simp add: singlePartitionIteration_def)
  next
    case (Inr c)
    then show ?thesis
      using Pair by (simp add: singlePartitionIteration_def)
  qed
qed

lemma runLoopWithLoadBalancing_never_rejects:
  "m_runLoopWithLoadBalancing n e p b sig w = Some (r, w') \<Longrightarrow> r = Inr ()"
proof (induction n arbitrary: w)
  case 0
  then show ?case by simp
next
  case (Suc n)
  obtain c where "fst (loadBalancingIteration e p b sig w) = Inr c"
    using loadBalancingIteration_no_throw by blast
  then show ?case
    using Suc
    by (cases "loadBalancingIteration e p b sig w"; cases c) (auto split: if_splits)
qed

lemma runLoopForSinglePartition_never_rejects:
  "m_runLoopForSinglePartition n e p pid sig w = Some (r, w') \<Longrightarrow> r = Inr ()"
proof (induction n arbitrary: w)
  case 0
  then show ?case by simp
next
  case (Suc n)
  obtain c where "fst (singlePartitionIteration e p pid sig w) = Inr c"
    using singlePartitionIteration_no_throw by blast
  then show ?case
    using Suc
    by (cases "singlePartitionIteration e p pid sig w"; cases c) (auto split: if_splits)
qed

lemma loops_return_when_aborted:
  "aborted sig w \<Longrightarrow> m_runLoopWithLoadBalancing (Suc n) e p b sig w = Some (Inr (), w)"
  "aborted sig w \<Longrightarrow> m_runLoopForSinglePartition (Suc n) e p pid sig w = Some (Inr (), w)"
  by simp_all

subsection \<open>Cancellation is not reported\<close>

text \<open>
  Claim C4. An error whose name is \<^verbatim>\<open>AbortError\<close> never reaches the user's \<^verbatim>\<open>processError\<close>:
  \<open>m_handleSubscriptionError\<close> returns at once, leaving the world and its call log as they
  were, whatever handler is installed. The three places that catch an error and hand it
  over (the balanced loop, the single-partition loop, the claim attempt) therefore add
  nothing to the log for such an error but their own delay or claim call.
\<close>

theorem abort_error_is_filtered:
  assumes "name err = ''AbortError''"
  shows "m_handleSubscriptionError e p err w = (Inr (), w)
    \<and> (loadBalancingTry e p lb sig w = (Inl err, w1) \<longrightarrow>
         loadBalancingIteration e p lb sig w =
           (Inr Normal, (delayWithoutThrow e (m_loopIntervalInMs p) sig w1)
               \<lparr>trace := trace w1 @ [DelayWithoutThrow (m_loopIntervalInMs p) sig]\<rparr>))
    \<and> (m_startPump e p pid w = (Inl err, w1) \<longrightarrow>
         singlePartitionIteration e p pid sig w =
           (Inr Normal, (delayWithoutThrow e (m_loopIntervalInMs p) sig w1)
               \<lparr>trace := trace w1 @ [DelayWithoutThrow (m_loopIntervalInMs p) sig]\<rparr>))
    \<and> (claimOwnership e [req] w = (Inl err, w1) \<longrightarrow>
         m_claimOwnership e p req w = (Inr (), w1\<lparr>trace := trace w @ [ClaimOwnership [req]]\<rparr>))"
  using assms
  by (simp add: m_handleSubscriptionError_def loadBalancingIteration_def
      singlePartitionIteration_def m_claimOwnership_def logged_def)

theorem abort_error_is_filtered_witness:
  "name demoAbortError = ''AbortError''
   \<and> m_handleSubscriptionError (demoEnv [] [] [] []) demoProcessor demoAbortError demoWorld
       = (Inr (), demoWorld)
   \<and> claimOwnership ((demoEnv [] [] [] [])\<lparr>claimOwnership := (\<lambda>requests w. (Inl demoAbortError, w))\<rparr>)
        [demoRow ''0'' ''A'' None] demoWorld = (Inl demoAbortError, demoWorld)
   \<and> trace (snd (m_claimOwnership
        ((demoEnv [] [] [] [])\<lparr>claimOwnership := (\<lambda>requests w. (Inl demoAbortError, w))\<rparr>)
        demoProcessor (demoRow ''0'' ''A'' None) demoWorld)) = [ClaimOwnership [demoRow ''0'' ''A'' None]]"
proof -
  have n: "name demoAbortError = ''AbortError''"
    by (simp add: demoAbortError_def)
  have c: "claimOwnership ((demoEnv [] [] [] [])\<lparr>claimOwnership := (\<lambda>requests w. (Inl demoAbortError, w))\<rparr>)
        [demoRow ''0'' ''A'' None] demoWorld = (Inl demoAbortError, demoWorld)"
    by simp
  show ?thesis
    using n c
      abort_error_is_filtered [OF n, where e = "demoEnv [] [] [] []" and p = demoProcessor
        and w = demoWorld]
      abort_error_is_filtered [OF n,
        where e = "(demoEnv [] [] [] [])\<lparr>claimOwnership := (\<lambda>requests w. (Inl demoAbortError, w))\<rparr>"
        and p = demoProcessor and w = demoWorld and ?w1.0 = demoWorld
        and req = "demoRow ''0'' ''A'' None"]
    by (simp add: demoWorld_def)
qed

lemma filter_find_Some:
  "find P xs = Some x \<Longrightarrow> \<exists>rest. filter P xs = x # rest"
  by (induction xs) (auto split: if_splits)

lemma filter_find_None:
  "find P xs = None \<Longrightarrow> filter P xs = []"
  by (induction xs) (auto split: if_splits)

lemma demoProcessor_simps:
  "m_eventHubClient demoMapProcessor = demoClient"
  "m_consumerGroup demoMapProcessor = ''$Default''"
  "m_processorOptions demoMapProcessor = demoOptions\<lparr>opt_startPosition := Some demoPositions\<rparr>"
  "m_eventHubClient demoSingleProcessor = demoClient"
  "m_consumerGroup demoSingleProcessor = ''$Default''"
  "m_processorOptions demoSingleProcessor =
     demoOptions\<lparr>opt_startPosition := Some [(''enqueuedOn'', JNum 1700000000000)]\<rparr>"
  by (simp_all add: demoMapProcessor_def demoSingleProcessor_def new_EventProcessor_def)

subsection \<open>Errors are reported with the processor's context\<close>



subsection \<open>Tunables given as zero\<close>

text \<open>
  Claim C10. The constructor tests \<^verbatim>\<open>loopIntervalInMs\<close> and \<^verbatim>\<open>inactiveTimeLimitInMs\<close> for
  truthiness: given as 0, the loop interval stays 10000 and the default load balancer is
  built with the inactivity limit 60000 (the member \<^verbatim>\<open>_inactiveTimeLimitInMs\<close> is 60000 in
  every case).
\<close>

theorem zero_tunables_fall_back:
  "m_loopIntervalInMs (new_EventProcessor grp client (options\<lparr>opt_loopIntervalInMs := Some 0\<rparr>) fresh) = 10000
   \<and> m_processingTarget (new_EventProcessor grp client
        (options\<lparr>opt_inactiveTimeLimitInMs := Some 0, opt_processingTarget := None\<rparr>) fresh)
       = TargetBalancer (FairPartitionLoadBalancer 60000)
   \<and> m_inactiveTimeLimitInMs (new_EventProcessor grp client
        (options\<lparr>opt_inactiveTimeLimitInMs := Some 0\<rparr>) fresh) = 60000"
  by (simp add: new_EventProcessor_def truthyNumber_def truthyTarget_def)

theorem zero_tunables_fall_back_witness:
  "m_loopIntervalInMs (new_EventProcessor ''$Default'' demoClient
      (demoOptions\<lparr>opt_loopIntervalInMs := Some 0\<rparr>) ''generated'') = 10000
   \<and> m_processingTarget (new_EventProcessor ''$Default'' demoClient
        (demoOptions\<lparr>opt_inactiveTimeLimitInMs := Some 0, opt_processingTarget := None\<rparr>) ''generated'')
       = TargetBalancer (FairPartitionLoadBalancer 60000)
   \<and> m_loopIntervalInMs (new_EventProcessor ''$Default'' demoClient
      (demoOptions\<lparr>opt_loopIntervalInMs := Some 250\<rparr>) ''generated'') = 250
   \<and> m_processingTarget (new_EventProcessor ''$Default'' demoClient
        (demoOptions\<lparr>opt_inactiveTimeLimitInMs := Some 5, opt_processingTarget := None\<rparr>) ''generated'')
       = TargetBalancer (FairPartitionLoadBalancer 5)"
  using zero_tunables_fall_back [of "''$Default''" demoClient demoOptions "''generated''"]
  by (simp add: new_EventProcessor_def truthyNumber_def truthyTarget_def demoOptions_def)

subsection \<open>Where a pump starts reading\<close>

lemma getStartingPosition_checkpoint:
  assumes "listCheckpoints e (client_fullyQualifiedNamespace (m_eventHubClient p))
             (client_eventHubName (m_eventHubClient p)) (m_consumerGroup p) w = (Inr chks, w')"
    and "find (\<lambda>chk. partitionId chk = pid) chks = Some c"
  shows "fst (m_getStartingPosition e p pid w) = Inr (JObj [(''offset'', offset c)])"
  using assms filter_find_Some [OF assms(2)]
  by (auto simp add: m_getStartingPosition_def logged_def)

lemma getStartingPosition_fallback:
  assumes "listCheckpoints e (client_fullyQualifiedNamespace (m_eventHubClient p))
             (client_eventHubName (m_eventHubClient p)) (m_consumerGroup p) w = (Inr chks, w')"
    and "find (\<lambda>chk. partitionId chk = pid) chks = None"
  shows "fst (m_getStartingPosition e p pid w) =
           Inr (getStartPosition (latestEventPosition e) pid (opt_startPosition (m_processorOptions p)))"
  using assms filter_find_None [OF assms(2)]
  by (simp add: m_getStartingPosition_def logged_def)

text \<open>The priority chain of \<open>m_getStartingPosition\<close> when the store returns its list of
  checkpoints: the first listed checkpoint of the partition gives
  \<^verbatim>\<open>{offset: checkpoint.offset}\<close>; with no such checkpoint, a user value in which \<^verbatim>\<open>offset\<close>,
  \<^verbatim>\<open>sequenceNumber\<close> or \<^verbatim>\<open>enqueuedOn\<close> is set is returned itself; otherwise the own entry of
  the user value under the partition id is returned when it is neither null nor undefined;
  otherwise the member the user value inherits under that name is returned when there is
  one; otherwise, and when the user gave no value, the result is the latest position.\<close>

lemma starting_position_chain:
  assumes "listCheckpoints e (client_fullyQualifiedNamespace (m_eventHubClient p))
             (client_eventHubName (m_eventHubClient p)) (m_consumerGroup p) w = (Inr chks, w')"
  shows "(\<forall>c. find (\<lambda>chk. partitionId chk = pid) chks = Some c \<longrightarrow>
            fst (m_getStartingPosition e p pid w) = Inr (JObj [(''offset'', offset c)]))
    \<and> (find (\<lambda>chk. partitionId chk = pid) chks = None \<longrightarrow>
         (\<forall>sp. opt_startPosition (m_processorOptions p) = Some sp \<and>
               (\<not> isNullish (getProp sp ''offset'') \<or> \<not> isNullish (getProp sp ''sequenceNumber'')
                \<or> \<not> isNullish (getProp sp ''enqueuedOn'')) \<longrightarrow>
               fst (m_getStartingPosition e p pid w) = Inr (JObj sp))
       \<and> (\<forall>sp v. opt_startPosition (m_processorOptions p) = Some sp \<and>
               isNullish (getProp sp ''offset'') \<and> isNullish (getProp sp ''sequenceNumber'') \<and>
               isNullish (getProp sp ''enqueuedOn'') \<and>
               map_of sp pid = Some v \<and> v \<noteq> JUndefined \<and> v \<noteq> JNull \<longrightarrow>
               fst (m_getStartingPosition e p pid w) = Inr v)
       \<and> (\<forall>sp inherited. opt_startPosition (m_processorOptions p) = Some sp \<and>
               isNullish (getProp sp ''offset'') \<and> isNullish (getProp sp ''sequenceNumber'') \<and>
               isNullish (getProp sp ''enqueuedOn'') \<and>
               map_of sp pid = None \<and> map_of objectPrototype pid = Some inherited \<longrightarrow>
               fst (m_getStartingPosition e p pid w) = Inr inherited)
       \<and> (\<forall>sp. opt_startPosition (m_processorOptions p) = Some sp \<and>
               isNullish (getProp sp ''offset'') \<and> isNullish (getProp sp ''sequenceNumber'') \<and>
               isNullish (getProp sp ''enqueuedOn'') \<and>
               (map_of sp pid \<in> {Some JUndefined, Some JNull}
                \<or> map_of sp pid = None \<and> map_of objectPrototype pid = None) \<longrightarrow>
               fst (m_getStartingPosition e p pid w) = Inr (latestEventPosition e))
       \<and> (opt_startPosition (m_processorOptions p) = None \<longrightarrow>
               fst (m_getStartingPosition e p pid w) = Inr (latestEventPosition e)))"
proof (intro conjI allI impI)
  fix c
  assume "find (\<lambda>chk. partitionId chk = pid) chks = Some c"
  then show "fst (m_getStartingPosition e p pid w) = Inr (JObj [(''offset'', offset c)])"
    using assms by (rule getStartingPosition_checkpoint [rotated])
next
  fix sp
  assume n: "find (\<lambda>chk. partitionId chk = pid) chks = None"
    and "opt_startPosition (m_processorOptions p) = Some sp \<and>
               (\<not> isNullish (getProp sp ''offset'') \<or> \<not> isNullish (getProp sp ''sequenceNumber'')
                \<or> \<not> isNullish (getProp sp ''enqueuedOn''))"
  then show "fst (m_getStartingPosition e p pid w) = Inr (JObj sp)"
    using getStartingPosition_fallback [OF assms n]
    by (auto simp add: getStartPosition_def)
next
  fix sp v
  assume n: "find (\<lambda>chk. partitionId chk = pid) chks = None"
    and h: "opt_startPosition (m_processorOptions p) = Some sp \<and>
               isNullish (getProp sp ''offset'') \<and> isNullish (getProp sp ''sequenceNumber'') \<and>
               isNullish (getProp sp ''enqueuedOn'') \<and>
               map_of sp pid = Some v \<and> v \<noteq> JUndefined \<and> v \<noteq> JNull"
  have "getProp sp pid = v" "\<not> isNullish v"
    using h by (simp_all add: getProp_def isNullish_def)
  then show "fst (m_getStartingPosition e p pid w) = Inr v"
    using getStartingPosition_fallback [OF assms n] h
    by (simp add: getStartPosition_def)
next
  fix sp inherited
  assume n: "find (\<lambda>chk. partitionId chk = pid) chks = None"
    and h: "opt_startPosition (m_processorOptions p) = Some sp \<and>
               isNullish (getProp sp ''offset'') \<and> isNullish (getProp sp ''sequenceNumber'') \<and>
               isNullish (getProp sp ''enqueuedOn'') \<and>
               map_of sp pid = None \<and> map_of objectPrototype pid = Some inherited"
  have "inherited \<in> snd ` set objectPrototype"
    using h by (metis map_of_SomeD image_eqI snd_conv)
  then have "\<not> isNullish inherited"
    by (auto simp add: objectPrototype_def isNullish_def)
  moreover have "getProp sp pid = inherited"
    using h by (simp add: getProp_def)
  ultimately show "fst (m_getStartingPosition e p pid w) = Inr inherited"
    using getStartingPosition_fallback [OF assms n] h
    by (simp add: getStartPosition_def)
next
  fix sp
  assume n: "find (\<lambda>chk. partitionId chk = pid) chks = None"
    and h: "opt_startPosition (m_processorOptions p) = Some sp \<and>
               isNullish (getProp sp ''offset'') \<and> isNullish (getProp sp ''sequenceNumber'') \<and>
               isNullish (getProp sp ''enqueuedOn'') \<and>
               (map_of sp pid \<in> {Some JUndefined, Some JNull}
                \<or> map_of sp pid = None \<and> map_of objectPrototype pid = None)"
  have "isNullish (getProp sp pid)"
    using h by (auto simp add: getProp_def isNullish_def)
  then show "fst (m_getStartingPosition e p pid w) = Inr (latestEventPosition e)"
    using getStartingPosition_fallback [OF assms n] h
    by (simp add: getStartPosition_def)
next
  assume n: "find (\<lambda>chk. partitionId chk = pid) chks = None"
    and "opt_startPosition (m_processorOptions p) = None"
  then show "fst (m_getStartingPosition e p pid w) = Inr (latestEventPosition e)"
    using getStartingPosition_fallback [OF assms n]
    by (simp add: getStartPosition_def)
qed

lemma starting_position_chain_examples:
  "fst (m_getStartingPosition (demoEnv [] [demoCheckpoint ''1'' (JStr ''42'')] [] []) demoMapProcessor ''1'' demoWorld)
     = Inr (JObj [(''offset'', JStr ''42'')])
   \<and> fst (m_getStartingPosition (demoEnv [] [demoCheckpoint ''1'' (JStr ''42'')] [] []) demoMapProcessor ''0'' demoWorld)
     = Inr (JObj [(''sequenceNumber'', JNum 5)])
   \<and> fst (m_getStartingPosition (demoEnv [] [demoCheckpoint ''1'' (JStr ''42'')] [] []) demoMapProcessor ''2'' demoWorld)
     = Inr (JObj [(''offset'', JStr ''@latest'')])
   \<and> fst (m_getStartingPosition (demoEnv [] [demoCheckpoint ''1'' (JStr ''42'')] [] []) demoSingleProcessor ''0'' demoWorld)
     = Inr (JObj [(''enqueuedOn'', JNum 1700000000000)])"
  by (simp add: m_getStartingPosition_def logged_def demoEnv_def demoCheckpoint_def demoProcessor_simps
      demoOptions_def getStartPosition_def getProp_def objectPrototype_def isNullish_def
      demoPositions_def)

text \<open>
  Claim C2. The claim requires the latest position for a partition id that has no listed
  checkpoint and no entry in the user's map. For the partition id \<^verbatim>\<open>constructor\<close> the code
  does not return it: the store lists a checkpoint for partition 1 only, the user's map has
  entries for partitions 0 and 1 only and sets none of \<^verbatim>\<open>offset\<close>, \<^verbatim>\<open>sequenceNumber\<close> and
  \<^verbatim>\<open>enqueuedOn\<close>, and the position returned is the function every object inherits under
  that name, read by \<^verbatim>\<open>startPositions[partitionIdToClaim]\<close> at line 967.
\<close>

theorem starting_position_inherited_member:
  "find (\<lambda>chk. partitionId chk = ''constructor'') [demoCheckpoint ''1'' (JStr ''42'')] = None
   \<and> opt_startPosition (m_processorOptions demoMapProcessor) = Some demoPositions
   \<and> isNullish (getProp demoPositions ''offset'')
   \<and> isNullish (getProp demoPositions ''sequenceNumber'')
   \<and> isNullish (getProp demoPositions ''enqueuedOn'')
   \<and> map_of demoPositions ''constructor'' = None
   \<and> latestEventPosition (demoEnv [] [demoCheckpoint ''1'' (JStr ''42'')] [] [] :: unit env)
       = JObj [(''offset'', JStr ''@latest'')]
   \<and> m_getStartingPosition (demoEnv [] [demoCheckpoint ''1'' (JStr ''42'')] [] []) demoMapProcessor
        ''constructor'' demoWorld
       = (Inr (JBuiltin ''Object''),
          demoWorld\<lparr>trace := [ListCheckpoints ''ns.example.net'' ''hub'' ''$Default'']\<rparr>)"
  by (simp add: m_getStartingPosition_def logged_def demoEnv_def demoCheckpoint_def demoProcessor_simps
      demoOptions_def getStartPosition_def getProp_def objectPrototype_def isNullish_def
      demoPositions_def demoWorld_def demoClient_def)

subsection \<open>The outcome of a claim attempt\<close>

lemma claimOwnership_returns:
  "fst (m_claimOwnership e p req w) = Inr ()"
  by (simp add: m_claimOwnership_def handleSubscriptionError_returns split: prod.split sum.split)

lemma getStartingPosition_result:
  assumes "listCheckpoints e (client_fullyQualifiedNamespace (m_eventHubClient p))
             (client_eventHubName (m_eventHubClient p)) (m_consumerGroup p) w = (Inr chks, w2)"
  shows "m_getStartingPosition e p pid w =
     (Inr (case find (\<lambda>chk. partitionId chk = pid) chks of
             Some chk \<Rightarrow> JObj [(''offset'', offset chk)]
           | None \<Rightarrow> getStartPosition (latestEventPosition e) pid
                       (opt_startPosition (m_processorOptions p))),
      w2\<lparr>trace := trace w @ [ListCheckpoints (client_fullyQualifiedNamespace (m_eventHubClient p))
                                (client_eventHubName (m_eventHubClient p)) (m_consumerGroup p)]\<rparr>)"
proof (cases "find (\<lambda>chk. partitionId chk = pid) chks")
  case None
  then show ?thesis
    using assms filter_find_None [OF None]
    by (simp add: m_getStartingPosition_def logged_def)
next
  case (Some c)
  then show ?thesis
    using assms filter_find_Some [OF Some]
    by (auto simp add: m_getStartingPosition_def logged_def)
qed

lemma startPump_already_receiving:
  "isReceivingFromPartition e pid w \<Longrightarrow>
     m_startPump e p pid w = (Inr (), w\<lparr>trace := trace w @ [IsReceivingFromPartition pid]\<rparr>)"
  by (simp add: m_startPump_def)

lemma startPump_checkpoints_fail:
  assumes "\<not> isReceivingFromPartition e pid w"
    and "listCheckpoints e (client_fullyQualifiedNamespace (m_eventHubClient p))
           (client_eventHubName (m_eventHubClient p)) (m_consumerGroup p)
           (w\<lparr>trace := trace w @ [IsReceivingFromPartition pid]\<rparr>) = (Inl err, w2)"
  shows "m_startPump e p pid w =
     (Inl err, w2\<lparr>trace := trace w @ [IsReceivingFromPartition pid,
                       ListCheckpoints (client_fullyQualifiedNamespace (m_eventHubClient p))
                                (client_eventHubName (m_eventHubClient p)) (m_consumerGroup p)]\<rparr>)"
  using assms by (simp add: m_startPump_def m_getStartingPosition_def logged_def)

lemma startPump_creates_pump:
  assumes "\<not> isReceivingFromPartition e pid w"
    and "listCheckpoints e (client_fullyQualifiedNamespace (m_eventHubClient p))
           (client_eventHubName (m_eventHubClient p)) (m_consumerGroup p)
           (w\<lparr>trace := trace w @ [IsReceivingFromPartition pid]\<rparr>) = (Inr chks, w2)"
    and "createPump e
           (case find (\<lambda>chk. partitionId chk = pid) chks of
              Some chk \<Rightarrow> JObj [(''offset'', offset chk)]
            | None \<Rightarrow> getStartPosition (latestEventPosition e) pid
                        (opt_startPosition (m_processorOptions p)))
           \<lparr>fullyQualifiedNamespace = client_fullyQualifiedNamespace (m_eventHubClient p),
            eventHubName = client_eventHubName (m_eventHubClient p),
            consumerGroup = m_consumerGroup p, partitionId = pid, eventProcessorId = m_id p\<rparr>
           (w2\<lparr>trace := trace w @ [IsReceivingFromPartition pid,
                       ListCheckpoints (client_fullyQualifiedNamespace (m_eventHubClient p))
                                (client_eventHubName (m_eventHubClient p)) (m_consumerGroup p)]\<rparr>)
         = (r, w3)"
  shows "m_startPump e p pid w =
     (r, w3\<lparr>trace := trace w @ [IsReceivingFromPartition pid,
                 ListCheckpoints (client_fullyQualifiedNamespace (m_eventHubClient p))
                          (client_eventHubName (m_eventHubClient p)) (m_consumerGroup p),
                 CreatePump
                   (case find (\<lambda>chk. partitionId chk = pid) chks of
                      Some chk \<Rightarrow> JObj [(''offset'', offset chk)]
                    | None \<Rightarrow> getStartPosition (latestEventPosition e) pid
                                (opt_startPosition (m_processorOptions p)))
                   \<lparr>fullyQualifiedNamespace = client_fullyQualifiedNamespace (m_eventHubClient p),
                    eventHubName = client_eventHubName (m_eventHubClient p),
                    consumerGroup = m_consumerGroup p, partitionId = pid, eventProcessorId = m_id p\<rparr>]\<rparr>)"
  using assms(1,3) getStartingPosition_result [OF assms(2), of pid]
  by (simp add: m_startPump_def logged_def)

lemma claimOwnership_cases:
  assumes "claimOwnership e [req] w = (Inr claimed, w1)"
  shows "(claimed = [] \<longrightarrow>
            m_claimOwnership e p req w = (Inr (), w1\<lparr>trace := trace w @ [ClaimOwnership [req]]\<rparr>))
    \<and> (claimed \<noteq> [] \<longrightarrow>
          fst (m_claimOwnership e p req w) = Inr ()
        \<and> (isReceivingFromPartition e (partitionId req) (w1\<lparr>trace := trace w @ [ClaimOwnership [req]]\<rparr>) \<longrightarrow>
            m_claimOwnership e p req w = (Inr (), w1\<lparr>trace := trace w @ [ClaimOwnership [req], IsReceivingFromPartition (partitionId req)]\<rparr>))
        \<and> (\<forall>chks w2 w3.
            \<not> isReceivingFromPartition e (partitionId req) (w1\<lparr>trace := trace w @ [ClaimOwnership [req]]\<rparr>)
            \<and> listCheckpoints e (client_fullyQualifiedNamespace (m_eventHubClient p))
                (client_eventHubName (m_eventHubClient p)) (m_consumerGroup p)
                (w1\<lparr>trace := trace w @ [ClaimOwnership [req], IsReceivingFromPartition (partitionId req)]\<rparr>) = (Inr chks, w2)
            \<and> createPump e
                    (case find (\<lambda>chk. partitionId chk = partitionId req) chks of
                       Some chk \<Rightarrow> JObj [(''offset'', offset chk)]
                     | None \<Rightarrow> getStartPosition (latestEventPosition e) (partitionId req)
                                 (opt_startPosition (m_processorOptions p)))
                    \<lparr>fullyQualifiedNamespace = client_fullyQualifiedNamespace (m_eventHubClient p),
                     eventHubName = client_eventHubName (m_eventHubClient p),
                     consumerGroup = m_consumerGroup p, partitionId = partitionId req,
                     eventProcessorId = m_id p\<rparr>
                    (w2\<lparr>trace := trace w @ [ClaimOwnership [req], IsReceivingFromPartition (partitionId req),
                     ListCheckpoints (client_fullyQualifiedNamespace (m_eventHubClient p))
                       (client_eventHubName (m_eventHubClient p)) (m_consumerGroup p)]\<rparr>) = (Inr (), w3)
            \<longrightarrow> m_claimOwnership e p req w = (Inr (), w3\<lparr>trace := trace w @ [ClaimOwnership [req], IsReceivingFromPartition (partitionId req),
                     ListCheckpoints (client_fullyQualifiedNamespace (m_eventHubClient p))
                       (client_eventHubName (m_eventHubClient p)) (m_consumerGroup p),
                     CreatePump
                    (case find (\<lambda>chk. partitionId chk = partitionId req) chks of
                       Some chk \<Rightarrow> JObj [(''offset'', offset chk)]
                     | None \<Rightarrow> getStartPosition (latestEventPosition e) (partitionId req)
                                 (opt_startPosition (m_processorOptions p)))
                    \<lparr>fullyQualifiedNamespace = client_fullyQualifiedNamespace (m_eventHubClient p),
                     eventHubName = client_eventHubName (m_eventHubClient p),
                     consumerGroup = m_consumerGroup p, partitionId = partitionId req,
                     eventProcessorId = m_id p\<rparr>]\<rparr>))
        \<and> (\<forall>chks w2 err w3.
            \<not> isReceivingFromPartition e (partitionId req) (w1\<lparr>trace := trace w @ [ClaimOwnership [req]]\<rparr>)
            \<and> listCheckpoints e (client_fullyQualifiedNamespace (m_eventHubClient p))
                (client_eventHubName (m_eventHubClient p)) (m_consumerGroup p)
                (w1\<lparr>trace := trace w @ [ClaimOwnership [req], IsReceivingFromPartition (partitionId req)]\<rparr>) = (Inr chks, w2)
            \<and> createPump e
                    (case find (\<lambda>chk. partitionId chk = partitionId req) chks of
                       Some chk \<Rightarrow> JObj [(''offset'', offset chk)]
                     | None \<Rightarrow> getStartPosition (latestEventPosition e) (partitionId req)
                                 (opt_startPosition (m_processorOptions p)))
                    \<lparr>fullyQualifiedNamespace = client_fullyQualifiedNamespace (m_eventHubClient p),
                     eventHubName = client_eventHubName (m_eventHubClient p),
                     consumerGroup = m_consumerGroup p, partitionId = partitionId req,
                     eventProcessorId = m_id p\<rparr>
                    (w2\<lparr>trace := trace w @ [ClaimOwnership [req], IsReceivingFromPartition (partitionId req),
                     ListCheckpoints (client_fullyQualifiedNamespace (m_eventHubClient p))
                       (client_eventHubName (m_eventHubClient p)) (m_consumerGroup p)]\<rparr>) = (Inl err, w3)
            \<longrightarrow> m_claimOwnership e p req w = m_handleSubscriptionError e p err (w3\<lparr>trace := trace w @ [ClaimOwnership [req], IsReceivingFromPartition (partitionId req),
                     ListCheckpoints (client_fullyQualifiedNamespace (m_eventHubClient p))
                       (client_eventHubName (m_eventHubClient p)) (m_consumerGroup p),
                     CreatePump
                    (case find (\<lambda>chk. partitionId chk = partitionId req) chks of
                       Some chk \<Rightarrow> JObj [(''offset'', offset chk)]
                     | None \<Rightarrow> getStartPosition (latestEventPosition e) (partitionId req)
                                 (opt_startPosition (m_processorOptions p)))
                    \<lparr>fullyQualifiedNamespace = client_fullyQualifiedNamespace (m_eventHubClient p),
                     eventHubName = client_eventHubName (m_eventHubClient p),
                     consumerGroup = m_consumerGroup p, partitionId = partitionId req,
                     eventProcessorId = m_id p\<rparr>]\<rparr>))
        \<and> (\<forall>err w2.
            \<not> isReceivingFromPartition e (partitionId req) (w1\<lparr>trace := trace w @ [ClaimOwnership [req]]\<rparr>)
            \<and> listCheckpoints e (client_fullyQualifiedNamespace (m_eventHubClient p))
                (client_eventHubName (m_eventHubClient p)) (m_consumerGroup p)
                (w1\<lparr>trace := trace w @ [ClaimOwnership [req], IsReceivingFromPartition (partitionId req)]\<rparr>) = (Inl err, w2)
            \<longrightarrow> m_claimOwnership e p req w = m_handleSubscriptionError e p err (w2\<lparr>trace := trace w @ [ClaimOwnership [req], IsReceivingFromPartition (partitionId req),
                     ListCheckpoints (client_fullyQualifiedNamespace (m_eventHubClient p))
                       (client_eventHubName (m_eventHubClient p)) (m_consumerGroup p)]\<rparr>)))"
proof (intro conjI impI allI)
  let ?w1 = "w1\<lparr>trace := trace w @ [ClaimOwnership [req]]\<rparr>"
  show "m_claimOwnership e p req w = (Inr (), ?w1)" if "claimed = []"
    using that assms by (simp add: m_claimOwnership_def logged_def)
  show "fst (m_claimOwnership e p req w) = Inr ()"
    by (rule claimOwnership_returns)
  assume ne: "claimed \<noteq> []"
  have step: "m_claimOwnership e p req w =
      (case m_startPump e p (partitionId req) ?w1 of
         (Inl err, w2) \<Rightarrow> m_handleSubscriptionError e p err w2
       | (Inr u, w2) \<Rightarrow> (Inr (), w2))"
    using assms ne by (simp add: m_claimOwnership_def logged_def)
  show "m_claimOwnership e p req w = (Inr (), w1\<lparr>trace := trace w @ [ClaimOwnership [req], IsReceivingFromPartition (partitionId req)]\<rparr>)"
    if "isReceivingFromPartition e (partitionId req) (w1\<lparr>trace := trace w @ [ClaimOwnership [req]]\<rparr>)"
    using startPump_already_receiving [OF that, of p] by (simp add: step)
  show "m_claimOwnership e p req w = (Inr (), w3\<lparr>trace := trace w @ [ClaimOwnership [req], IsReceivingFromPartition (partitionId req),
                     ListCheckpoints (client_fullyQualifiedNamespace (m_eventHubClient p))
                       (client_eventHubName (m_eventHubClient p)) (m_consumerGroup p),
                     CreatePump
                    (case find (\<lambda>chk. partitionId chk = partitionId req) chks of
                       Some chk \<Rightarrow> JObj [(''offset'', offset chk)]
                     | None \<Rightarrow> getStartPosition (latestEventPosition e) (partitionId req)
                                 (opt_startPosition (m_processorOptions p)))
                    \<lparr>fullyQualifiedNamespace = client_fullyQualifiedNamespace (m_eventHubClient p),
                     eventHubName = client_eventHubName (m_eventHubClient p),
                     consumerGroup = m_consumerGroup p, partitionId = partitionId req,
                     eventProcessorId = m_id p\<rparr>]\<rparr>)"
    if h: "\<not> isReceivingFromPartition e (partitionId req) (w1\<lparr>trace := trace w @ [ClaimOwnership [req]]\<rparr>)
            \<and> listCheckpoints e (client_fullyQualifiedNamespace (m_eventHubClient p))
                (client_eventHubName (m_eventHubClient p)) (m_consumerGroup p)
                (w1\<lparr>trace := trace w @ [ClaimOwnership [req], IsReceivingFromPartition (partitionId req)]\<rparr>) = (Inr chks, w2)
            \<and> createPump e
                    (case find (\<lambda>chk. partitionId chk = partitionId req) chks of
                       Some chk \<Rightarrow> JObj [(''offset'', offset chk)]
                     | None \<Rightarrow> getStartPosition (latestEventPosition e) (partitionId req)
                                 (opt_startPosition (m_processorOptions p)))
                    \<lparr>fullyQualifiedNamespace = client_fullyQualifiedNamespace (m_eventHubClient p),
                     eventHubName = client_eventHubName (m_eventHubClient p),
                     consumerGroup = m_consumerGroup p, partitionId = partitionId req,
                     eventProcessorId = m_id p\<rparr>
                    (w2\<lparr>trace := trace w @ [ClaimOwnership [req], IsReceivingFromPartition (partitionId req),
                     ListCheckpoints (client_fullyQualifiedNamespace (m_eventHubClient p))
                       (client_eventHubName (m_eventHubClient p)) (m_consumerGroup p)]\<rparr>) = (Inr (), w3)"
    for chks w2 w3
  proof -
    have "m_startPump e p (partitionId req) ?w1 = (Inr (), w3\<lparr>trace := trace w @ [ClaimOwnership [req], IsReceivingFromPartition (partitionId req),
                     ListCheckpoints (client_fullyQualifiedNamespace (m_eventHubClient p))
                       (client_eventHubName (m_eventHubClient p)) (m_consumerGroup p),
                     CreatePump
                    (case find (\<lambda>chk. partitionId chk = partitionId req) chks of
                       Some chk \<Rightarrow> JObj [(''offset'', offset chk)]
                     | None \<Rightarrow> getStartPosition (latestEventPosition e) (partitionId req)
                                 (opt_startPosition (m_processorOptions p)))
                    \<lparr>fullyQualifiedNamespace = client_fullyQualifiedNamespace (m_eventHubClient p),
                     eventHubName = client_eventHubName (m_eventHubClient p),
                     consumerGroup = m_consumerGroup p, partitionId = partitionId req,
                     eventProcessorId = m_id p\<rparr>]\<rparr>)"
      using h by (intro startPump_creates_pump [where ?w2.0 = w2, THEN trans]) simp_all
    then show ?thesis
      by (simp add: step)
  qed
  show "m_claimOwnership e p req w = m_handleSubscriptionError e p err (w3\<lparr>trace := trace w @ [ClaimOwnership [req], IsReceivingFromPartition (partitionId req),
                     ListCheckpoints (client_fullyQualifiedNamespace (m_eventHubClient p))
                       (client_eventHubName (m_eventHubClient p)) (m_consumerGroup p),
                     CreatePump
                    (case find (\<lambda>chk. partitionId chk = partitionId req) chks of
                       Some chk \<Rightarrow> JObj [(''offset'', offset chk)]
                     | None \<Rightarrow> getStartPosition (latestEventPosition e) (partitionId req)
                                 (opt_startPosition (m_processorOptions p)))
                    \<lparr>fullyQualifiedNamespace = client_fullyQualifiedNamespace (m_eventHubClient p),
                     eventHubName = client_eventHubName (m_eventHubClient p),
                     consumerGroup = m_consumerGroup p, partitionId = partitionId req,
                     eventProcessorId = m_id p\<rparr>]\<rparr>)"
    if h: "\<not> isReceivingFromPartition e (partitionId req) (w1\<lparr>trace := trace w @ [ClaimOwnership [req]]\<rparr>)
            \<and> listCheckpoints e (client_fullyQualifiedNamespace (m_eventHubClient p))
                (client_eventHubName (m_eventHubClient p)) (m_consumerGroup p)
                (w1\<lparr>trace := trace w @ [ClaimOwnership [req], IsReceivingFromPartition (partitionId req)]\<rparr>) = (Inr chks, w2)
            \<and> createPump e
                    (case find (\<lambda>chk. partitionId chk = partitionId req) chks of
                       Some chk \<Rightarrow> JObj [(''offset'', offset chk)]
                     | None \<Rightarrow> getStartPosition (latestEventPosition e) (partitionId req)
                                 (opt_startPosition (m_processorOptions p)))
                    \<lparr>fullyQualifiedNamespace = client_fullyQualifiedNamespace (m_eventHubClient p),
                     eventHubName = client_eventHubName (m_eventHubClient p),
                     consumerGroup = m_consumerGroup p, partitionId = partitionId req,
                     eventProcessorId = m_id p\<rparr>
                    (w2\<lparr>trace := trace w @ [ClaimOwnership [req], IsReceivingFromPartition (partitionId req),
                     ListCheckpoints (client_fullyQualifiedNamespace (m_eventHubClient p))
                       (client_eventHubName (m_eventHubClient p)) (m_consumerGroup p)]\<rparr>) = (Inl err, w3)"
    for chks w2 err w3
  proof -
    have "m_startPump e p (partitionId req) ?w1 = (Inl err, w3\<lparr>trace := trace w @ [ClaimOwnership [req], IsReceivingFromPartition (partitionId req),
                     ListCheckpoints (client_fullyQualifiedNamespace (m_eventHubClient p))
                       (client_eventHubName (m_eventHubClient p)) (m_consumerGroup p),
                     CreatePump
                    (case find (\<lambda>chk. partitionId chk = partitionId req) chks of
                       Some chk \<Rightarrow> JObj [(''offset'', offset chk)]
                     | None \<Rightarrow> getStartPosition (latestEventPosition e) (partitionId req)
                                 (opt_startPosition (m_processorOptions p)))
                    \<lparr>fullyQualifiedNamespace = client_fullyQualifiedNamespace (m_eventHubClient p),
                     eventHubName = client_eventHubName (m_eventHubClient p),
                     consumerGroup = m_consumerGroup p, partitionId = partitionId req,
                     eventProcessorId = m_id p\<rparr>]\<rparr>)"
      using h by (intro startPump_creates_pump [where ?w2.0 = w2, THEN trans]) simp_all
    then show ?thesis
      by (simp add: step)
  qed
  show "m_claimOwnership e p req w = m_handleSubscriptionError e p err (w2\<lparr>trace := trace w @ [ClaimOwnership [req], IsReceivingFromPartition (partitionId req),
                     ListCheckpoints (client_fullyQualifiedNamespace (m_eventHubClient p))
                       (client_eventHubName (m_eventHubClient p)) (m_consumerGroup p)]\<rparr>)"
    if h: "\<not> isReceivingFromPartition e (partitionId req) (w1\<lparr>trace := trace w @ [ClaimOwnership [req]]\<rparr>)
            \<and> listCheckpoints e (client_fullyQualifiedNamespace (m_eventHubClient p))
                (client_eventHubName (m_eventHubClient p)) (m_consumerGroup p)
                (w1\<lparr>trace := trace w @ [ClaimOwnership [req], IsReceivingFromPartition (partitionId req)]\<rparr>) = (Inl err, w2)"
    for err w2
  proof -
    have "m_startPump e p (partitionId req) ?w1 = (Inl err, w2\<lparr>trace := trace w @ [ClaimOwnership [req], IsReceivingFromPartition (partitionId req),
                     ListCheckpoints (client_fullyQualifiedNamespace (m_eventHubClient p))
                       (client_eventHubName (m_eventHubClient p)) (m_consumerGroup p)]\<rparr>)"
      using h by (intro startPump_checkpoints_fail [THEN trans]) simp_all
    then show ?thesis
      by (simp add: step)
  qed
qed

text \<open>
  Claim C5. When the store answers a claim request with the empty list, \<open>m_claimOwnership\<close>
  returns normally having made that one call and nothing else: no pump is started and no
  error is reported. When the answer is not empty it goes on to start a pump for the
  partition id of the request, and the world it returns is the one the pump manager and
  the store leave behind:
  \<^item> if the pump manager already receives from that partition, nothing more is called;
  \<^item> otherwise the checkpoints are listed and \<^verbatim>\<open>createPump\<close> is called with the starting
    position of that partition and a partition processor for that partition id and this
    processor; when it returns, the result is the world \<^verbatim>\<open>createPump\<close> returned;
  \<^item> an error thrown by \<^verbatim>\<open>createPump\<close> or by \<^verbatim>\<open>listCheckpoints\<close> goes to
    \<open>m_handleSubscriptionError\<close>.

  In no case does \<open>m_claimOwnership\<close> throw.
\<close>

theorem claim_attempt_outcome:
  fixes e :: "'x env" and p req w w1 claimed
  defines "pid \<equiv> partitionId req"
    and "listed \<equiv> ListCheckpoints (client_fullyQualifiedNamespace (m_eventHubClient p))
                     (client_eventHubName (m_eventHubClient p)) (m_consumerGroup p)"
    and "position \<equiv> (\<lambda>chks. case find (\<lambda>chk. partitionId chk = partitionId req) chks of
                       Some chk \<Rightarrow> JObj [(''offset'', offset chk)]
                     | None \<Rightarrow> getStartPosition (latestEventPosition e) (partitionId req)
                                 (opt_startPosition (m_processorOptions p)))"
    and "processor \<equiv> \<lparr>fullyQualifiedNamespace = client_fullyQualifiedNamespace (m_eventHubClient p),
                     eventHubName = client_eventHubName (m_eventHubClient p),
                     consumerGroup = m_consumerGroup p, partitionId = partitionId req,
                     eventProcessorId = m_id p\<rparr>"
  assumes answer: "claimOwnership e [req] w = (Inr claimed, w1)"
  shows "(claimed = [] \<longrightarrow>
            m_claimOwnership e p req w = (Inr (), w1\<lparr>trace := trace w @ [ClaimOwnership [req]]\<rparr>))
    \<and> (claimed \<noteq> [] \<longrightarrow>
          fst (m_claimOwnership e p req w) = Inr ()
        \<and> (isReceivingFromPartition e pid (w1\<lparr>trace := trace w @ [ClaimOwnership [req]]\<rparr>) \<longrightarrow>
            m_claimOwnership e p req w =
              (Inr (), w1\<lparr>trace := trace w @ [ClaimOwnership [req], IsReceivingFromPartition pid]\<rparr>))
        \<and> (\<forall>chks w2 w3.
            \<not> isReceivingFromPartition e pid (w1\<lparr>trace := trace w @ [ClaimOwnership [req]]\<rparr>)
            \<and> listCheckpoints e (client_fullyQualifiedNamespace (m_eventHubClient p))
                (client_eventHubName (m_eventHubClient p)) (m_consumerGroup p)
                (w1\<lparr>trace := trace w @ [ClaimOwnership [req], IsReceivingFromPartition pid]\<rparr>)
               = (Inr chks, w2)
            \<and> createPump e (position chks) processor
                (w2\<lparr>trace := trace w @ [ClaimOwnership [req], IsReceivingFromPartition pid, listed]\<rparr>)
               = (Inr (), w3)
            \<longrightarrow> m_claimOwnership e p req w =
                  (Inr (), w3\<lparr>trace := trace w @ [ClaimOwnership [req], IsReceivingFromPartition pid,
                                                    listed, CreatePump (position chks) processor]\<rparr>))
        \<and> (\<forall>chks w2 err w3.
            \<not> isReceivingFromPartition e pid (w1\<lparr>trace := trace w @ [ClaimOwnership [req]]\<rparr>)
            \<and> listCheckpoints e (client_fullyQualifiedNamespace (m_eventHubClient p))
                (client_eventHubName (m_eventHubClient p)) (m_consumerGroup p)
                (w1\<lparr>trace := trace w @ [ClaimOwnership [req], IsReceivingFromPartition pid]\<rparr>)
               = (Inr chks, w2)
            \<and> createPump e (position chks) processor
                (w2\<lparr>trace := trace w @ [ClaimOwnership [req], IsReceivingFromPartition pid, listed]\<rparr>)
               = (Inl err, w3)
            \<longrightarrow> m_claimOwnership e p req w =
                  m_handleSubscriptionError e p err
                    (w3\<lparr>trace := trace w @ [ClaimOwnership [req], IsReceivingFromPartition pid,
                                           listed, CreatePump (position chks) processor]\<rparr>))
        \<and> (\<forall>err w2.
            \<not> isReceivingFromPartition e pid (w1\<lparr>trace := trace w @ [ClaimOwnership [req]]\<rparr>)
            \<and> listCheckpoints e (client_fullyQualifiedNamespace (m_eventHubClient p))
                (client_eventHubName (m_eventHubClient p)) (m_consumerGroup p)
                (w1\<lparr>trace := trace w @ [ClaimOwnership [req], IsReceivingFromPartition pid]\<rparr>)
               = (Inl err, w2)
            \<longrightarrow> m_claimOwnership e p req w =
                  m_handleSubscriptionError e p err
                    (w2\<lparr>trace := trace w @ [ClaimOwnership [req], IsReceivingFromPartition pid,
                                           listed]\<rparr>)))"
  unfolding pid_def listed_def position_def processor_def
  by (rule claimOwnership_cases [OF answer])

theorem claim_attempt_outcome_witness:
  "claimOwnership (pumpManagerEnv\<lparr>claimOwnership := (\<lambda>requests w. (Inr [], w))\<rparr>)
      [demoRow ''0'' ''A'' None] pumpWorld = (Inr [], pumpWorld)
   \<and> m_claimOwnership (pumpManagerEnv\<lparr>claimOwnership := (\<lambda>requests w. (Inr [], w))\<rparr>)
        demoProcessor (demoRow ''0'' ''A'' None) pumpWorld
      = (Inr (), \<lparr>controllers = [], trace = [ClaimOwnership [demoRow ''0'' ''A'' None]], ext = []\<rparr>)
   \<and> claimOwnership pumpManagerEnv [demoRow ''0'' ''A'' None] pumpWorld
      = (Inr [demoRow ''0'' ''A'' None], pumpWorld)
   \<and> m_claimOwnership pumpManagerEnv demoProcessor (demoRow ''0'' ''A'' None) pumpWorld
      = (Inr (), \<lparr>controllers = [],
           trace = [ClaimOwnership [demoRow ''0'' ''A'' None], IsReceivingFromPartition ''0'',
            ListCheckpoints ''ns.example.net'' ''hub'' ''$Default'',
            CreatePump (JObj [(''offset'', JStr ''42'')])
              \<lparr>fullyQualifiedNamespace = ''ns.example.net'', eventHubName = ''hub'',
               consumerGroup = ''$Default'', partitionId = ''0'', eventProcessorId = ''A''\<rparr>],
           ext = [''0'']\<rparr>)
   \<and> m_claimOwnership pumpManagerEnv demoProcessor (demoRow ''0'' ''A'' None)
        \<lparr>controllers = [], trace = [], ext = [''0'']\<rparr>
      = (Inr (), \<lparr>controllers = [],
           trace = [ClaimOwnership [demoRow ''0'' ''A'' None], IsReceivingFromPartition ''0''],
           ext = [''0'']\<rparr>)"
proof -
  let ?race = "pumpManagerEnv\<lparr>claimOwnership := (\<lambda>requests w. (Inr [], w))\<rparr>"
  let ?row = "demoRow ''0'' ''A'' None"
  let ?busy = "\<lparr>controllers = [], trace = [], ext = [''0'']\<rparr> :: string list world"
  have a: "claimOwnership ?race [?row] pumpWorld = (Inr [], pumpWorld)"
    by simp
  have b: "claimOwnership pumpManagerEnv [?row] pumpWorld = (Inr [?row], pumpWorld)"
    by (simp add: pumpManagerEnv_def)
  have c: "claimOwnership pumpManagerEnv [?row] ?busy = (Inr [?row], ?busy)"
    by (simp add: pumpManagerEnv_def)
  have d: "partitionId ?row = ''0''"
    "client_fullyQualifiedNamespace (m_eventHubClient demoProcessor) = ''ns.example.net''"
    "client_eventHubName (m_eventHubClient demoProcessor) = ''hub''"
    "m_consumerGroup demoProcessor = ''$Default''" "m_id demoProcessor = ''A''"
    by (simp_all add: demoRow_def demoProcessor_def new_EventProcessor_def demoClient_def
        demoOptions_def truthyString_def)
  have m: "isReceivingFromPartition pumpManagerEnv pid v = (pid \<in> set (ext v))"
    "listCheckpoints pumpManagerEnv ns hub grp v = (Inr [demoCheckpoint ''0'' (JStr ''42'')], v)"
    "createPump pumpManagerEnv pos pp v = (Inr (), v\<lparr>ext := partitionId pp # ext v\<rparr>)"
    for pid v ns hub grp pos pp
    by (simp_all add: pumpManagerEnv_def)
  have f: "partitionId (demoCheckpoint ''0'' (JStr ''42'')) = ''0''"
    "offset (demoCheckpoint ''0'' (JStr ''42'')) = JStr ''42''"
    by (simp_all add: demoCheckpoint_def)
  show ?thesis
    using a b claim_attempt_outcome [OF a, where p = demoProcessor]
      claim_attempt_outcome [OF b, where p = demoProcessor]
      claim_attempt_outcome [OF c, where p = demoProcessor]
    by (simp add: d m f pumpWorld_def)
qed

subsection \<open>The claim request\<close>

lemma startPump_no_claims:
  "filter isClaimOwnership (trace (snd (m_startPump e p pid w))) = filter isClaimOwnership (trace w)"
  by (auto simp add: m_startPump_def m_getStartingPosition_def logged_def Let_def
      split: prod.split sum.split list.split)

lemma handleSubscriptionError_no_claims:
  "filter isClaimOwnership (trace (snd (m_handleSubscriptionError e p err w)))
     = filter isClaimOwnership (trace w)"
  by (auto simp add: m_handleSubscriptionError_def logged_def split: option.split prod.split sum.split)

lemma claimOwnership_one_claim:
  "filter isClaimOwnership (trace (snd (m_claimOwnership e p req w)))
     = filter isClaimOwnership (trace w) @ [ClaimOwnership [req]]"
proof -
  obtain r w1 where c: "claimOwnership e [req] w = (r, w1)"
    by (cases "claimOwnership e [req] w")
  let ?w1 = "w1\<lparr>trace := trace w @ [ClaimOwnership [req]]\<rparr>"
  have t1: "filter isClaimOwnership (trace ?w1) = filter isClaimOwnership (trace w) @ [ClaimOwnership [req]]"
    by simp
  show ?thesis
  proof (cases r)
    case (Inl err)
    then show ?thesis
      using c t1 handleSubscriptionError_no_claims [of e p err ?w1]
      by (simp add: m_claimOwnership_def logged_def)
  next
    case (Inr claimed)
    show ?thesis
    proof (cases "claimed = []")
      case True
      then show ?thesis
        using c Inr by (simp add: m_claimOwnership_def logged_def)
    next
      case False
      obtain r2 w2 where sp: "m_startPump e p (partitionId req) ?w1 = (r2, w2)"
        by (cases "m_startPump e p (partitionId req) ?w1")
      have t2: "filter isClaimOwnership (trace w2) = filter isClaimOwnership (trace w) @ [ClaimOwnership [req]]"
        using startPump_no_claims [of e p "partitionId req" ?w1] sp by simp
      show ?thesis
      proof (cases r2)
        case (Inl err)
        then show ?thesis
          using c \<open>r = Inr claimed\<close> False sp t2 handleSubscriptionError_no_claims [of e p err w2]
          by (simp add: m_claimOwnership_def logged_def)
      next
        case (Inr u)
        then show ?thesis
          using c \<open>r = Inr claimed\<close> False sp t2
          by (simp add: m_claimOwnership_def logged_def)
      qed
    qed
  qed
qed

lemma claimOwnership_returns':
  "m_claimOwnership e p req w = (r, w1) \<Longrightarrow> r = Inr ()"
  using claimOwnership_returns [of e p req w] by simp

lemma claimPartitions_claims:
  "fst (claimPartitions e p ab live ps w) = Inr ()
   \<and> filter isClaimOwnership (trace (snd (claimPartitions e p ab live ps w)))
     = filter isClaimOwnership (trace w) @ map (\<lambda>pid. ClaimOwnership [ownershipRequestFor p ab live pid]) ps"
proof (induction ps arbitrary: w)
  case Nil
  then show ?case by simp
next
  case (Cons pid ps)
  obtain r w1 where c: "m_claimOwnership e p (ownershipRequestFor p ab live pid) w = (r, w1)"
    by (cases "m_claimOwnership e p (ownershipRequestFor p ab live pid) w")
  have r: "r = Inr ()"
    using c by (rule claimOwnership_returns')
  have t: "filter isClaimOwnership (trace w1)
     = filter isClaimOwnership (trace w) @ [ClaimOwnership [ownershipRequestFor p ab live pid]]"
    using claimOwnership_one_claim [of e p "ownershipRequestFor p ab live pid" w] c by simp
  show ?case
    using c r t Cons.IH [of w1] by simp
qed

lemma find_append_split:
  "find P (xs @ ys) = (case find P xs of Some x \<Rightarrow> Some x | None \<Rightarrow> find P ys)"
  by (induction xs) auto

lemma splitOwnerships_abandoned:
  "map_of (fst (splitOwnerships rows ab live)) pid =
     (case find (\<lambda>ownership. partitionId ownership = pid \<and> isAbandoned ownership) (rev rows) of
        Some ownership \<Rightarrow> Some ownership | None \<Rightarrow> map_of ab pid)"
  by (induction rows arbitrary: ab live)
     (auto simp add: find_append_split update_conv' split: option.splits)

lemma splitOwnerships_live:
  "map_of (snd (splitOwnerships rows ab live)) pid =
     (case find (\<lambda>ownership. partitionId ownership = pid \<and> \<not> isAbandoned ownership) (rev rows) of
        Some ownership \<Rightarrow> Some ownership | None \<Rightarrow> map_of live pid)"
  by (induction rows arbitrary: ab live)
     (auto simp add: find_append_split update_conv' split: option.splits)

lemma loadBalancingTry_claims:
  assumes lo: "listOwnership e (client_fullyQualifiedNamespace (m_eventHubClient p))
                 (client_eventHubName (m_eventHubClient p)) (m_consumerGroup p) w = (Inr rows, w1)"
    and gp: "getPartitionIds e sig
               (w1\<lparr>trace := trace w @ [ListOwnership (client_fullyQualifiedNamespace (m_eventHubClient p))
                                         (client_eventHubName (m_eventHubClient p)) (m_consumerGroup p)]\<rparr>)
             = (Inr ids, w2)"
    and na: "\<not> aborted sig w2" and ne: "ids \<noteq> []"
    and lb: "loadBalance e b (m_id p) (snd (splitOwnerships rows [] [])) ids
               (w2\<lparr>trace := trace w @ [ListOwnership (client_fullyQualifiedNamespace (m_eventHubClient p))
                                         (client_eventHubName (m_eventHubClient p)) (m_consumerGroup p),
                                       GetPartitionIds sig]\<rparr>)
             = (Inr (Some ps), w3)"
  shows "filter isClaimOwnership (trace (snd (loadBalancingTry e p b sig w)))
       = filter isClaimOwnership (trace w)
         @ map (\<lambda>pid. ClaimOwnership [ownershipRequestFor p (fst (splitOwnerships rows [] []))
                                          (snd (splitOwnerships rows [] [])) pid]) ps"
proof -
  let ?ab = "fst (splitOwnerships rows [] [])"
  let ?live = "snd (splitOwnerships rows [] [])"
  let ?L = "ListOwnership (client_fullyQualifiedNamespace (m_eventHubClient p))
              (client_eventHubName (m_eventHubClient p)) (m_consumerGroup p)"
  let ?w3 = "w3\<lparr>trace := trace w @ [?L, GetPartitionIds sig, LoadBalance b (m_id p) ?live ids]\<rparr>"
  have sp: "splitOwnerships rows [] [] = (?ab, ?live)"
    by simp
  have ab: "aborted sig (w2\<lparr>trace := trace w @ [?L, GetPartitionIds sig]\<rparr>) = aborted sig w2"
    by (simp add: aborted_def)
  have t: "loadBalancingTry e p b sig w =
      (case claimPartitions e p ?ab ?live ps ?w3 of
         (Inl err, w4) \<Rightarrow> (Inl err, w4) | (Inr u, w4) \<Rightarrow> (Inr Normal, w4))"
    using lo gp na ne lb ab
    by (simp add: loadBalancingTry_def logged_def split_beta)
  have c: "filter isClaimOwnership (trace (snd (claimPartitions e p ?ab ?live ps ?w3)))
       = filter isClaimOwnership (trace ?w3)
         @ map (\<lambda>pid. ClaimOwnership [ownershipRequestFor p ?ab ?live pid]) ps"
    using claimPartitions_claims [of e p ?ab ?live ps ?w3] by blast
  obtain r4 w4 where cp: "claimPartitions e p ?ab ?live ps ?w3 = (r4, w4)"
    by (cases "claimPartitions e p ?ab ?live ps ?w3")
  have "filter isClaimOwnership (trace w4)
       = filter isClaimOwnership (trace w)
         @ map (\<lambda>pid. ClaimOwnership [ownershipRequestFor p ?ab ?live pid]) ps"
    using c cp by simp
  then show ?thesis
    using cp by (cases r4) (simp_all add: t)
qed

text \<open>
  Claim C6. The request built for a partition the balancer returned names this processor
  as owner and carries the etag of the abandoned-map entry of that partition when there is
  one, else the etag of the live-map entry when there is one, else no etag. The \<^verbatim>\<open>for\<close> loop
  submits exactly one such request per returned partition, in order, and so does a pass of
  the balanced loop with the maps it built from the listed rows.
\<close>

theorem claim_request_construction:
  "ownerId (ownershipRequestFor p ab live pid) = m_id p
   \<and> partitionId (ownershipRequestFor p ab live pid) = pid
   \<and> (\<forall>prev. map_of ab pid = Some prev \<longrightarrow> etag (ownershipRequestFor p ab live pid) = etag prev)
   \<and> (\<forall>prev. map_of ab pid = None \<and> map_of live pid = Some prev \<longrightarrow>
         etag (ownershipRequestFor p ab live pid) = etag prev)
   \<and> (map_of ab pid = None \<and> map_of live pid = None \<longrightarrow>
         etag (ownershipRequestFor p ab live pid) = None)
   \<and> fst (claimPartitions e p ab live ps w) = Inr ()
   \<and> filter isClaimOwnership (trace (snd (claimPartitions e p ab live ps w)))
       = filter isClaimOwnership (trace w)
         @ map (\<lambda>pid. ClaimOwnership [ownershipRequestFor p ab live pid]) ps
   \<and> (\<forall>rows w1 ids w2 w3.
         listOwnership e (client_fullyQualifiedNamespace (m_eventHubClient p))
           (client_eventHubName (m_eventHubClient p)) (m_consumerGroup p) w = (Inr rows, w1)
       \<and> getPartitionIds e sig
           (w1\<lparr>trace := trace w @ [ListOwnership (client_fullyQualifiedNamespace (m_eventHubClient p))
                                     (client_eventHubName (m_eventHubClient p)) (m_consumerGroup p)]\<rparr>)
           = (Inr ids, w2)
       \<and> \<not> aborted sig w2 \<and> ids \<noteq> []
       \<and> loadBalance e b (m_id p) (snd (splitOwnerships rows [] [])) ids
           (w2\<lparr>trace := trace w @ [ListOwnership (client_fullyQualifiedNamespace (m_eventHubClient p))
                                     (client_eventHubName (m_eventHubClient p)) (m_consumerGroup p),
                                   GetPartitionIds sig]\<rparr>)
           = (Inr (Some ps), w3)
       \<longrightarrow> filter isClaimOwnership (trace (snd (loadBalancingTry e p b sig w)))
           = filter isClaimOwnership (trace w)
             @ map (\<lambda>pid. ClaimOwnership [ownershipRequestFor p (fst (splitOwnerships rows [] []))
                                              (snd (splitOwnerships rows [] [])) pid]) ps)"
proof (intro conjI allI impI)
  show "ownerId (ownershipRequestFor p ab live pid) = m_id p"
    by (simp add: ownershipRequestFor_def m_createPartitionOwnershipRequest_def)
  show "partitionId (ownershipRequestFor p ab live pid) = pid"
    by (simp add: ownershipRequestFor_def m_createPartitionOwnershipRequest_def)
  show "etag (ownershipRequestFor p ab live pid) = etag prev" if "map_of ab pid = Some prev" for prev
    using that by (simp add: ownershipRequestFor_def m_createPartitionOwnershipRequest_def)
  show "etag (ownershipRequestFor p ab live pid) = etag prev"
    if "map_of ab pid = None \<and> map_of live pid = Some prev" for prev
    using that by (simp add: ownershipRequestFor_def m_createPartitionOwnershipRequest_def)
  show "etag (ownershipRequestFor p ab live pid) = None"
    if "map_of ab pid = None \<and> map_of live pid = None"
    using that by (simp add: ownershipRequestFor_def m_createPartitionOwnershipRequest_def)
  show "fst (claimPartitions e p ab live ps w) = Inr ()"
    using claimPartitions_claims [of e p ab live ps w] by blast
  show "filter isClaimOwnership (trace (snd (claimPartitions e p ab live ps w)))
       = filter isClaimOwnership (trace w)
         @ map (\<lambda>pid. ClaimOwnership [ownershipRequestFor p ab live pid]) ps"
    using claimPartitions_claims [of e p ab live ps w] by blast
  show "filter isClaimOwnership (trace (snd (loadBalancingTry e p b sig w)))
           = filter isClaimOwnership (trace w)
             @ map (\<lambda>pid. ClaimOwnership [ownershipRequestFor p (fst (splitOwnerships rows [] []))
                                              (snd (splitOwnerships rows [] [])) pid]) ps"
    if "listOwnership e (client_fullyQualifiedNamespace (m_eventHubClient p))
           (client_eventHubName (m_eventHubClient p)) (m_consumerGroup p) w = (Inr rows, w1)
       \<and> getPartitionIds e sig
           (w1\<lparr>trace := trace w @ [ListOwnership (client_fullyQualifiedNamespace (m_eventHubClient p))
                                     (client_eventHubName (m_eventHubClient p)) (m_consumerGroup p)]\<rparr>)
           = (Inr ids, w2)
       \<and> \<not> aborted sig w2 \<and> ids \<noteq> []
       \<and> loadBalance e b (m_id p) (snd (splitOwnerships rows [] [])) ids
           (w2\<lparr>trace := trace w @ [ListOwnership (client_fullyQualifiedNamespace (m_eventHubClient p))
                                     (client_eventHubName (m_eventHubClient p)) (m_consumerGroup p),
                                   GetPartitionIds sig]\<rparr>)
           = (Inr (Some ps), w3)" for rows w1 ids w2 w3
    using that by (intro loadBalancingTry_claims [where ?w1.0 = w1 and ?w2.0 = w2 and ?w3.0 = w3]) blast+
qed

theorem claim_request_construction_witness:
  "map_of (fst (splitOwnerships demoRows [] [])) ''1'' = Some (demoRow ''1'' [] (Some ''e1''))
   \<and> etag (ownershipRequestFor demoProcessor (fst (splitOwnerships demoRows [] []))
             (snd (splitOwnerships demoRows [] [])) ''1'') = Some ''e1''
   \<and> map_of (fst (splitOwnerships demoRows [] [])) ''0'' = None
   \<and> map_of (snd (splitOwnerships demoRows [] [])) ''0'' = Some (demoRow ''0'' ''B'' (Some ''e0''))
   \<and> etag (ownershipRequestFor demoProcessor (fst (splitOwnerships demoRows [] []))
             (snd (splitOwnerships demoRows [] [])) ''0'') = Some ''e0''
   \<and> map_of (fst (splitOwnerships demoRows [] [])) ''2'' = None
   \<and> map_of (snd (splitOwnerships demoRows [] [])) ''2'' = None
   \<and> etag (ownershipRequestFor demoProcessor (fst (splitOwnerships demoRows [] []))
             (snd (splitOwnerships demoRows [] [])) ''2'') = None
   \<and> ownerId (ownershipRequestFor demoProcessor (fst (splitOwnerships demoRows [] []))
             (snd (splitOwnerships demoRows [] [])) ''1'') = ''A''
   \<and> filter isClaimOwnership (trace (snd (loadBalancingTry
         (demoEnv demoRows [] [''0'', ''1'', ''2''] [''1'', ''0'', ''2'']) demoProcessor
         (FairPartitionLoadBalancer 60000) 0 demoWorld)))
      = map (\<lambda>pid. ClaimOwnership [ownershipRequestFor demoProcessor (fst (splitOwnerships demoRows [] []))
                                      (snd (splitOwnerships demoRows [] [])) pid]) [''1'', ''0'', ''2'']"
proof -
  let ?e = "demoEnv demoRows [] [''0'', ''1'', ''2''] [''1'', ''0'', ''2'']"
  have s: "splitOwnerships demoRows [] [] =
     ([(''1'', demoRow ''1'' [] (Some ''e1''))],
      [(''0'', demoRow ''0'' ''B'' (Some ''e0'')), (''1'', demoRow ''1'' ''B'' (Some ''old''))])"
    by (simp add: demoRows_def demoRow_def isAbandoned_def)
  have i: "m_id demoProcessor = ''A''"
    by (simp add: demoProcessor_def new_EventProcessor_def demoOptions_def truthyString_def)
  have t: "etag (demoRow pid owner tag) = tag" for pid owner tag
    by (simp add: demoRow_def)
  have h: "listOwnership ?e ns hub grp w = (Inr demoRows, w)"
    "getPartitionIds ?e c w = (Inr [''0'', ''1'', ''2''], w)"
    "loadBalance ?e b owner m ids w = (Inr (Some [''1'', ''0'', ''2'']), w)"
    "\<not> aborted 0 (demoWorld\<lparr>trace := tr\<rparr>)" "trace demoWorld = []"
    for ns hub grp w c b owner m ids tr
    by (simp_all add: demoEnv_def aborted_def demoWorld_def)
  show ?thesis
    using claim_request_construction [where p = demoProcessor
        and ab = "fst (splitOwnerships demoRows [] [])" and live = "snd (splitOwnerships demoRows [] [])"
        and pid = "''1''" and ps = "[''1'', ''0'', ''2'']" and e = ?e and w = demoWorld and sig = 0
        and b = "FairPartitionLoadBalancer 60000"]
      claim_request_construction [where p = demoProcessor
        and ab = "fst (splitOwnerships demoRows [] [])" and live = "snd (splitOwnerships demoRows [] [])"
        and pid = "''0''" and ps = "[]" and e = ?e and w = demoWorld and sig = 0
        and b = "FairPartitionLoadBalancer 60000"]
      claim_request_construction [where p = demoProcessor
        and ab = "fst (splitOwnerships demoRows [] [])" and live = "snd (splitOwnerships demoRows [] [])"
        and pid = "''2''" and ps = "[]" and e = ?e and w = demoWorld and sig = 0
        and b = "FairPartitionLoadBalancer 60000"]
    by (simp add: s i t h)
qed

subsection \<open>Cancellation seen after the partition ids are fetched\<close>



subsection \<open>Starting twice\<close>




subsection \<open>Stopping\<close>

lemma stopShutdown_processor: "fst (stopShutdown e p w) = p\<lparr>m_isRunning := False\<rparr>"
  by (simp add: stopShutdown_def Let_def split: prod.split sum.split option.split)

text \<open>
  Claim C3. In balanced mode, once the shutdown part of \<open>stop\<close> is over and the store lists
  the ownerships, \<open>stop\<close> submits one \<^verbatim>\<open>claimOwnership\<close> call whose rows are exactly the listed
  rows owned by this processor, each with \<^verbatim>\<open>ownerId\<close> set to the empty string and every other
  field, the etag included, as listed. Whatever subset the store reports as written, the
  empty one included, \<open>stop\<close> makes no further call and returns normally.
\<close>

theorem graceful_abandonment:
  assumes "m_processingTarget p = TargetBalancer b"
    and "stopShutdown e p w = (p1, w3)"
    and "listOwnership e (client_fullyQualifiedNamespace (m_eventHubClient p))
           (client_eventHubName (m_eventHubClient p)) (m_consumerGroup p) w3 = (Inr rows, w4)"
    and "claimOwnership e
           (map (\<lambda>ownership. ownership\<lparr>ownerId := []\<rparr>)
              (filter (\<lambda>ownership. ownerId ownership = m_id p) rows))
           (w4\<lparr>trace := trace w3 @ [ListOwnership (client_fullyQualifiedNamespace (m_eventHubClient p))
                                      (client_eventHubName (m_eventHubClient p)) (m_consumerGroup p)]\<rparr>)
         = (Inr claimed, w5)"
  shows "stop e p w =
           (Inr (), p\<lparr>m_isRunning := False\<rparr>,
            w5\<lparr>trace := trace w3 @
               [ListOwnership (client_fullyQualifiedNamespace (m_eventHubClient p))
                  (client_eventHubName (m_eventHubClient p)) (m_consumerGroup p),
                ClaimOwnership (map (\<lambda>ownership. ownership\<lparr>ownerId := []\<rparr>)
                                  (filter (\<lambda>ownership. ownerId ownership = m_id p) rows))]\<rparr>)
    \<and> set (map (\<lambda>ownership. ownership\<lparr>ownerId := []\<rparr>)
              (filter (\<lambda>ownership. ownerId ownership = m_id p) rows))
        = (\<lambda>ownership. ownership\<lparr>ownerId := []\<rparr>) ` {ownership \<in> set rows. ownerId ownership = m_id p}
    \<and> (\<forall>ownership. etag (ownership\<lparr>ownerId := []\<rparr>) = etag ownership
          \<and> lastModifiedTimeInMs (ownership\<lparr>ownerId := []\<rparr>) = lastModifiedTimeInMs ownership
          \<and> partitionId (ownership\<lparr>ownerId := []\<rparr>) = partitionId ownership
          \<and> consumerGroup (ownership\<lparr>ownerId := []\<rparr>) = consumerGroup ownership
          \<and> eventHubName (ownership\<lparr>ownerId := []\<rparr>) = eventHubName ownership
          \<and> fullyQualifiedNamespace (ownership\<lparr>ownerId := []\<rparr>) = fullyQualifiedNamespace ownership)"
proof -
  have p1: "p1 = p\<lparr>m_isRunning := False\<rparr>"
    using stopShutdown_processor [of e p w] assms(2) by simp
  have "stop e p w =
           (Inr (), p\<lparr>m_isRunning := False\<rparr>,
            w5\<lparr>trace := trace w3 @
               [ListOwnership (client_fullyQualifiedNamespace (m_eventHubClient p))
                  (client_eventHubName (m_eventHubClient p)) (m_consumerGroup p),
                ClaimOwnership (map (\<lambda>ownership. ownership\<lparr>ownerId := []\<rparr>)
                                  (filter (\<lambda>ownership. ownerId ownership = m_id p) rows))]\<rparr>)"
    using assms p1
    by (simp add: stop_def abandonPartitionOwnerships_def logged_def targetWithoutOwnership_def Let_def)
  then show ?thesis
    by auto
qed

lemma started_simps:
  "startedProcessor = demoProcessor\<lparr>m_isRunning := True, m_abortController := Some 0,
                        m_loopTask := Some (LoadBalancingLoop (FairPartitionLoadBalancer 60000) 0)\<rparr>"
  "startedWorld = \<lparr>controllers = [False],
         trace = [LoopStarted (LoadBalancingLoop (FairPartitionLoadBalancer 60000) 0)], ext = ()\<rparr>"
  by (simp_all add: startedProcessor_def startedWorld_def start_def newAbortController_def
      demoWorld_def demoProcessor_def new_EventProcessor_def demoOptions_def truthyNumber_def
      truthyTarget_def Let_def)

lemma demoProcessor_fields:
  "m_processingTarget demoProcessor = TargetBalancer (FairPartitionLoadBalancer 60000)"
  "m_id demoProcessor = ''A''"
  "client_fullyQualifiedNamespace (m_eventHubClient demoProcessor) = ''ns.example.net''"
  "client_eventHubName (m_eventHubClient demoProcessor) = ''hub''"
  "m_consumerGroup demoProcessor = ''$Default''"
  "m_loopIntervalInMs demoProcessor = 10000"
  "m_isRunning demoProcessor = False"
  "m_loopTask demoProcessor = None"
  "m_abortController demoProcessor = None"
  by (simp_all add: demoProcessor_def new_EventProcessor_def demoOptions_def demoClient_def
      truthyNumber_def truthyTarget_def truthyString_def)

theorem graceful_abandonment_witness:
  "m_processingTarget startedProcessor = TargetBalancer (FairPartitionLoadBalancer 60000)
   \<and> stop closeFailingEnv startedProcessor startedWorld =
     (Inr (), startedProcessor\<lparr>m_isRunning := False\<rparr>,
      \<lparr>controllers = [True],
       trace = [LoopStarted (LoadBalancingLoop (FairPartitionLoadBalancer 60000) 0),
                RemoveAllPumps Shutdown,
                ListOwnership ''ns.example.net'' ''hub'' ''$Default'',
                ClaimOwnership [demoRow ''3'' [] (Some ''e3'')]],
       ext = ()\<rparr>)"
proof -
  let ?w3 = "\<lparr>controllers = [True],
       trace = [LoopStarted (LoadBalancingLoop (FairPartitionLoadBalancer 60000) 0),
                RemoveAllPumps Shutdown], ext = ()\<rparr> :: unit world"
  let ?L = "ListOwnership (client_fullyQualifiedNamespace (m_eventHubClient startedProcessor))
              (client_eventHubName (m_eventHubClient startedProcessor)) (m_consumerGroup startedProcessor)"
  have t: "m_processingTarget startedProcessor = TargetBalancer (FairPartitionLoadBalancer 60000)"
    by (simp add: started_simps demoProcessor_fields)
  have s: "stopShutdown closeFailingEnv startedProcessor startedWorld
             = (startedProcessor\<lparr>m_isRunning := False\<rparr>, ?w3)"
    by (simp add: stopShutdown_def started_simps closeFailingEnv_def logged_def abort_controller_def)
  have l: "listOwnership closeFailingEnv (client_fullyQualifiedNamespace (m_eventHubClient startedProcessor))
           (client_eventHubName (m_eventHubClient startedProcessor)) (m_consumerGroup startedProcessor) ?w3
           = (Inr ownedRows, ?w3)"
    by (simp add: closeFailingEnv_def demoEnv_def)
  have c: "claimOwnership closeFailingEnv
           (map (\<lambda>ownership. ownership\<lparr>ownerId := []\<rparr>)
              (filter (\<lambda>ownership. ownerId ownership = m_id startedProcessor) ownedRows))
           (?w3\<lparr>trace := trace ?w3 @ [?L]\<rparr>)
         = (Inr [], ?w3\<lparr>trace := trace ?w3 @ [?L]\<rparr>)"
    by (simp add: closeFailingEnv_def)
  have f: "map (\<lambda>ownership. ownership\<lparr>ownerId := []\<rparr>)
              (filter (\<lambda>ownership. ownerId ownership = m_id startedProcessor) ownedRows)
           = [demoRow ''3'' [] (Some ''e3'')]"
    by (simp add: ownedRows_def demoRow_def started_simps demoProcessor_fields)
  have d: "client_fullyQualifiedNamespace (m_eventHubClient startedProcessor) = ''ns.example.net''"
    "client_eventHubName (m_eventHubClient startedProcessor) = ''hub''"
    "m_consumerGroup startedProcessor = ''$Default''"
    by (simp_all add: started_simps demoProcessor_fields)
  show ?thesis
    using t graceful_abandonment [OF t s l c]
    by (simp add: f d)
qed

text \<open>
  Claim C1. \<open>stop\<close> is to return normally in every state, also when an abandonment write
  fails and also when it is called on a processor that is not running. The code does
  neither: \<^verbatim>\<open>abandonPartitionOwnerships\<close> is awaited at line 927, after the \<^verbatim>\<open>try\<close> statement
  that catches the errors of \<^verbatim>\<open>removeAllPumps\<close> and of the awaited loop, and \<open>stop\<close> has no
  test of \<^verbatim>\<open>_isRunning\<close>. With a store whose \<^verbatim>\<open>claimOwnership\<close> throws, \<open>stop\<close> on a started
  processor throws that error, and so does \<open>stop\<close> on a processor that was never started,
  after calling the pump manager and the store.
\<close>

theorem stop_throws_when_abandonment_write_fails:
  "fst (stop writeFailingEnv startedProcessor startedWorld) = Inl demoError
   \<and> m_isRunning demoProcessor = False
   \<and> stop writeFailingEnv demoProcessor demoWorld =
       (Inl demoError, demoProcessor,
        \<lparr>controllers = [],
         trace = [RemoveAllPumps Shutdown,
                  ListOwnership ''ns.example.net'' ''hub'' ''$Default'',
                  ClaimOwnership [demoRow ''3'' [] (Some ''e3'')]],
         ext = ()\<rparr>)"
proof -
  have "fst (stop writeFailingEnv startedProcessor startedWorld) = Inl demoError"
    by (simp add: stop_def stopShutdown_def abandonPartitionOwnerships_def logged_def
        targetWithoutOwnership_def started_simps demoProcessor_fields writeFailingEnv_def
        demoEnv_def abort_controller_def)
  moreover have "demoProcessor\<lparr>m_isRunning := False\<rparr> = demoProcessor"
    by (simp add: demoProcessor_def new_EventProcessor_def)
  then have "stop writeFailingEnv demoProcessor demoWorld =
       (Inl demoError, demoProcessor,
        \<lparr>controllers = [],
         trace = [RemoveAllPumps Shutdown,
                  ListOwnership ''ns.example.net'' ''hub'' ''$Default'',
                  ClaimOwnership [demoRow ''3'' [] (Some ''e3'')]],
         ext = ()\<rparr>)"
    by (simp add: stop_def stopShutdown_def abandonPartitionOwnerships_def logged_def
        targetWithoutOwnership_def demoProcessor_fields writeFailingEnv_def
        demoEnv_def demoWorld_def ownedRows_def demoRow_def)
  ultimately show ?thesis
    by (simp add: demoProcessor_fields)
qed

end
